theory Spec2Isabelle
  imports Complex_Main "HOL-Library.Word" "HOL-Library.AList"
begin

section \<open>JavaScript values\<close>

text \<open>
  The hooks of \<^verbatim>\<open>src/hooks/useGameLogs.ts\<close> work on plain JavaScript objects whose
  declared TypeScript types are not enforced at run time (the validator itself tests for
  \<^verbatim>\<open>null\<close> and for modes outside the declared union). Values are therefore modelled
  dynamically. A string is its sequence of UTF-16 code units, which is what
  \<^verbatim>\<open>length\<close>, \<^verbatim>\<open>slice\<close> and \<^verbatim>\<open>trim\<close> work on. A number is the rational value of
  the double, or one of the three non-finite doubles; the code only tests numbers for
  integrality and compares them with 1 and 5, so no rounding is involved. An object is
  the list of its own properties in insertion order.
\<close>

type_synonym jsstring = "16 word list"

definition js :: "string \<Rightarrow> jsstring" where
  "js s = map of_char s"

datatype jsnum = Fin rat | NaN | PosInf | NegInf

datatype jsval =
    JUndefined
  | JNull
  | JBool bool
  | JNum jsnum
  | JStr jsstring
  | JObj "(string \<times> jsval) list"

type_synonym jsobj = "(string \<times> jsval) list"

text \<open>Property read \<^verbatim>\<open>o.k\<close>: an absent property reads as \<^verbatim>\<open>undefined\<close>.\<close>

definition getProp :: "jsobj \<Rightarrow> string \<Rightarrow> jsval" where
  "getProp ob k = (case map_of ob k of None \<Rightarrow> JUndefined | Some v \<Rightarrow> v)"

text \<open>Property write in an object literal \<^verbatim>\<open>{...o, k: v}\<close>: an existing property keeps
  its place and takes the new value, a new one is appended.\<close>

definition setProp :: "jsobj \<Rightarrow> string \<Rightarrow> jsval \<Rightarrow> jsobj" where
  "setProp ob k v = AList.update k v ob"

text \<open>\<^verbatim>\<open>ToBoolean\<close>, the test behind \<^verbatim>\<open>!x\<close>, \<^verbatim>\<open>x || y\<close> and \<^verbatim>\<open>if (x)\<close>.\<close>

fun truthy :: "jsval \<Rightarrow> bool" where
  "truthy JUndefined = False"
| "truthy JNull = False"
| "truthy (JBool b) = b"
| "truthy (JNum (Fin q)) = (q \<noteq> 0)"
| "truthy (JNum NaN) = False"
| "truthy (JNum PosInf) = True"
| "truthy (JNum NegInf) = True"
| "truthy (JStr s) = (s \<noteq> [])"
| "truthy (JObj ob) = True"

text \<open>\<^verbatim>\<open>Number.isInteger\<close>: true of finite numbers without fractional part only.\<close>

fun Number_isInteger :: "jsval \<Rightarrow> bool" where
  "Number_isInteger (JNum (Fin q)) = (of_int \<lfloor>q\<rfloor> = q)"
| "Number_isInteger _ = False"

text \<open>The comparisons \<^verbatim>\<open>x < c\<close> and \<^verbatim>\<open>x > c\<close> with a numeric literal. In the validator
  they are reached only behind \<^verbatim>\<open>!Number.isInteger(x) ||\<close>, that is for a finite
  number; the other cases follow the language for numbers and are \<open>False\<close> elsewhere.\<close>

fun num_less :: "jsval \<Rightarrow> rat \<Rightarrow> bool" where
  "num_less (JNum (Fin q)) c = (q < c)"
| "num_less (JNum NegInf) c = True"
| "num_less _ c = False"

fun num_greater :: "jsval \<Rightarrow> rat \<Rightarrow> bool" where
  "num_greater (JNum (Fin q)) c = (q > c)"
| "num_greater (JNum PosInf) c = True"
| "num_greater _ c = False"

text \<open>\<^verbatim>\<open>Array.prototype.includes\<close> on an array of strings.\<close>

definition Array_includes :: "jsval list \<Rightarrow> jsval \<Rightarrow> bool" where
  "Array_includes xs v = (v \<in> set xs)"

subsection \<open>Strings: \<^verbatim>\<open>trim\<close> and \<^verbatim>\<open>slice\<close>\<close>

text \<open>The code units that \<^verbatim>\<open>String.prototype.trim\<close> strips: ECMAScript's WhiteSpace
  and LineTerminator.\<close>

definition isWhiteSpace :: "16 word \<Rightarrow> bool" where
  "isWhiteSpace c =
     (c = 0x0009 \<or> c = 0x000A \<or> c = 0x000B \<or> c = 0x000C \<or> c = 0x000D \<or> c = 0x0020
      \<or> c = 0x00A0 \<or> c = 0x1680 \<or> (0x2000 \<le> c \<and> c \<le> 0x200A) \<or> c = 0x2028
      \<or> c = 0x2029 \<or> c = 0x202F \<or> c = 0x205F \<or> c = 0x3000 \<or> c = 0xFEFF)"

definition trim :: "jsstring \<Rightarrow> jsstring" where
  "trim s = rev (dropWhile isWhiteSpace (rev (dropWhile isWhiteSpace s)))"

text \<open>\<^verbatim>\<open>s.slice(b, e)\<close> for non-negative \<open>b\<close> and \<open>e\<close>.\<close>

definition slice_str :: "jsstring \<Rightarrow> nat \<Rightarrow> nat \<Rightarrow> jsstring" where
  "slice_str s b e = drop b (take e s)"

section \<open>Input validation\<close>

datatype error =
    Error string
  | TypeError
  | RemoteError string

text \<open>
  The expression \<^verbatim>\<open>x?.trim().slice(0, n) || null\<close> that the validator applies to each
  of its three free-text properties. Optional chaining yields \<^verbatim>\<open>undefined\<close> for
  \<^verbatim>\<open>undefined\<close> and \<^verbatim>\<open>null\<close>; on any other value that is not a string,
  \<^verbatim>\<open>.trim\<close> is not a function and the call throws a TypeError.
\<close>

fun sanitize :: "jsval \<Rightarrow> nat \<Rightarrow> error + jsval" where
  "sanitize JUndefined n = Inr JNull"
| "sanitize JNull n = Inr JNull"
| "sanitize (JStr s) n =
     (let t = JStr (slice_str (trim s) 0 n) in Inr (if truthy t then t else JNull))"
| "sanitize _ n = Inl TypeError"

definition validateGameLogInput :: "jsobj \<Rightarrow> error + jsobj" where
  "validateGameLogInput gameLog =
     (if \<not> truthy (getProp gameLog ''game_id'') \<or> \<not> truthy (getProp gameLog ''mode'')
      then Inl (Error ''Game ID and mode are required'')
      else if \<not> Array_includes [JStr (js ''attended''), JStr (js ''watched'')] (getProp gameLog ''mode'')
      then Inl (Error ''Invalid mode. Must be \"attended\" or \"watched\"'')
      else if getProp gameLog ''rating'' \<noteq> JUndefined \<and> getProp gameLog ''rating'' \<noteq> JNull
              \<and> (\<not> Number_isInteger (getProp gameLog ''rating'')
                   \<or> num_less (getProp gameLog ''rating'') 1
                   \<or> num_greater (getProp gameLog ''rating'') 5)
      then Inl (Error ''Rating must be an integer between 1 and 5'')
      else
        (case sanitize (getProp gameLog ''company'') 255 of
           Inl e \<Rightarrow> Inl e
         | Inr company \<Rightarrow>
        (case sanitize (getProp gameLog ''notes'') 1000 of
           Inl e \<Rightarrow> Inl e
         | Inr notes \<Rightarrow>
        (case sanitize (getProp gameLog ''rooted_for'') 100 of
           Inl e \<Rightarrow> Inl e
         | Inr rooted_for \<Rightarrow>
             Inr (setProp (setProp (setProp gameLog ''company'' company)
                    ''notes'' notes) ''rooted_for'' rooted_for)))))"


text \<open>The values that the declared type \<^verbatim>\<open>string | undefined\<close> of the free-text
  properties admits (with \<^verbatim>\<open>null\<close>, which the validator itself anticipates).\<close>

definition declared_text :: "jsval \<Rightarrow> bool" where
  "declared_text v =
     (case v of JUndefined \<Rightarrow> True | JNull \<Rightarrow> True | JStr s \<Rightarrow> True | _ \<Rightarrow> False)"

section \<open>The remote store as seen by the hooks\<close>

text \<open>
  A call chain on the store client is recorded as the request it builds:
  \<^item> \<^verbatim>\<open>from(t).select(cols).eq(c, v)....order(col, {ascending})\<close>,
  \<^item> \<^verbatim>\<open>from(t).insert(row).select().single()\<close>,
  \<^item> \<^verbatim>\<open>from(t).update(fields).eq(c, v)....select().single()\<close>,
  \<^item> \<^verbatim>\<open>from(t).delete().eq(c, v)...\<close>.
  The store's answer \<^verbatim>\<open>{data, error}\<close> is outside the repository: every operation
  takes it from a parameter \<open>remote\<close>, and returns, next to its result, the requests
  it has issued.
\<close>

datatype request =
    Select string string "(string \<times> jsval) list" "string \<times> bool"
  | Insert string jsobj
  | Update string jsobj "(string \<times> jsval) list"
  | Delete string "(string \<times> jsval) list"

datatype rdata = Rows "jsobj list" | Row jsobj | NoData

type_synonym response = "rdata \<times> string option"

type_synonym remote = "request \<Rightarrow> response"

text \<open>\<^verbatim>\<open>if (error) throw error; return data;\<close>\<close>

definition unwrap :: "response \<Rightarrow> error + rdata" where
  "unwrap r = (case r of (data, err) \<Rightarrow>
                 (case err of Some e \<Rightarrow> Inl (RemoteError e) | None \<Rightarrow> Inr data))"

text \<open>
  What a store holding the rows \<open>rows\<close> answers to a select: the rows that satisfy every
  equality filter, ordered by the given column. The store compares timestamps as
  instants; \<open>ts\<close> is its reading of a column value as an instant.
\<close>

definition store_select ::
  "(jsval \<Rightarrow> int) \<Rightarrow> jsobj list \<Rightarrow> (string \<times> jsval) list \<Rightarrow> string \<times> bool \<Rightarrow> jsobj list" where
  "store_select ts rows eqs ord =
     (let matching = filter (\<lambda>r. list_all (\<lambda>(c, v). getProp r c = v) eqs) rows;
          ascending = sort_key (\<lambda>r. ts (getProp r (fst ord))) matching
      in if snd ord then ascending else rev ascending)"

section \<open>The session\<close>

datatype user = User (uid: jsstring)

text \<open>\<^verbatim>\<open>user?.id\<close>\<close>

definition user_id :: "user option \<Rightarrow> jsval" where
  "user_id u = (case u of None \<Rightarrow> JUndefined | Some x \<Rightarrow> JStr (uid x))"

section \<open>The query cache\<close>

text \<open>
  The client-side cache of the query library: one query per key, in insertion order.
  A query's data is an array of row objects, or absent (\<^verbatim>\<open>undefined\<close>).
  \<^item> \<^verbatim>\<open>getQueryData\<close> reads the query with exactly the given key;
  \<^item> \<^verbatim>\<open>setQueryData\<close> applies the updater to that data; a result of \<^verbatim>\<open>undefined\<close>
    changes nothing, any other result is stored (creating the query when there is
    none) and clears the invalidation mark;
  \<^item> \<^verbatim>\<open>findAll\<close>, \<^verbatim>\<open>cancelQueries\<close> and \<^verbatim>\<open>invalidateQueries\<close> address every query
    whose key starts with the given key;
  \<^item> \<^verbatim>\<open>invalidateQueries\<close> marks the queries stale and starts a refetch of those that
    are in use.
\<close>

type_synonym queryKey = "jsval list"

record query =
  qdata :: "jsobj list option"
  isInvalidated :: bool
  isFetching :: bool
  active :: bool

type_synonym queryCache = "(queryKey \<times> query) list"

definition partialMatchKey :: "queryKey \<Rightarrow> queryKey \<Rightarrow> bool" where
  "partialMatchKey k p = (take (length p) k = p)"

definition getQueryData :: "queryCache \<Rightarrow> queryKey \<Rightarrow> jsobj list option" where
  "getQueryData c k = (case map_of c k of None \<Rightarrow> None | Some q \<Rightarrow> qdata q)"

definition setQueryData ::
  "queryCache \<Rightarrow> queryKey \<Rightarrow> (jsobj list option \<Rightarrow> jsobj list option) \<Rightarrow> queryCache" where
  "setQueryData c k updater =
     (case updater (getQueryData c k) of
        None \<Rightarrow> c
      | Some d \<Rightarrow>
          (case map_of c k of
             None \<Rightarrow> c @ [(k, \<lparr>qdata = Some d, isInvalidated = False,
                               isFetching = False, active = False\<rparr>)]
           | Some q \<Rightarrow> AList.update k (q\<lparr>qdata := Some d, isInvalidated := False\<rparr>) c))"

definition findAll :: "queryCache \<Rightarrow> queryKey \<Rightarrow> (queryKey \<times> query) list" where
  "findAll c p = filter (\<lambda>(k, q). partialMatchKey k p) c"

definition cancelQueries :: "queryCache \<Rightarrow> queryKey \<Rightarrow> queryCache" where
  "cancelQueries c p =
     map (\<lambda>(k, q). if partialMatchKey k p then (k, q\<lparr>isFetching := False\<rparr>) else (k, q)) c"

definition invalidateQueries :: "queryCache \<Rightarrow> queryKey \<Rightarrow> queryCache" where
  "invalidateQueries c p =
     map (\<lambda>(k, q). if partialMatchKey k p
                    then (k, q\<lparr>isInvalidated := True, isFetching := (isFetching q \<or> active q)\<rparr>)
                    else (k, q)) c"

section \<open>The hooks\<close>

subsection \<open>\<^verbatim>\<open>useGameLogs\<close>\<close>

record query_options =
  queryKey :: queryKey
  queryFn :: "remote \<Rightarrow> (error + rdata) \<times> request list"
  enabled :: bool

definition useGameLogs :: "user option \<Rightarrow> query_options" where
  "useGameLogs u =
     \<lparr>queryKey = [JStr (js ''game-logs''), user_id u],
      queryFn = (\<lambda>remote.
        (case u of
           None \<Rightarrow> (Inr (Rows []), [])
         | Some x \<Rightarrow>
             (let rq = Select ''user_game_logs'' ''*'' [(''user_id'', JStr (uid x))]
                         (''created_at'', False)
              in (unwrap (remote rq), [rq])))),
      enabled = (u \<noteq> None)\<rparr>"

subsection \<open>\<^verbatim>\<open>useAddGameLog\<close>\<close>

definition useAddGameLog_mutationFn ::
  "user option \<Rightarrow> remote \<Rightarrow> jsobj \<Rightarrow> (error + rdata) \<times> request list" where
  "useAddGameLog_mutationFn u remote gameLog =
     (case u of
        None \<Rightarrow> (Inl (Error ''Must be authenticated to add game logs''), [])
      | Some x \<Rightarrow>
          (case validateGameLogInput gameLog of
             Inl e \<Rightarrow> (Inl e, [])
           | Inr validatedGameLog \<Rightarrow>
               (let rq = Insert ''user_game_logs''
                           (setProp validatedGameLog ''user_id'' (JStr (uid x)))
                in (unwrap (remote rq), [rq]))))"

definition useAddGameLog_onSuccess :: "queryCache \<Rightarrow> queryCache" where
  "useAddGameLog_onSuccess c = invalidateQueries c [JStr (js ''game-logs'')]"

subsection \<open>\<^verbatim>\<open>useUpdateGameLog\<close>\<close>

text \<open>\<open>now\<close> is the value of \<^verbatim>\<open>new Date().toISOString()\<close> at the call.\<close>

definition useUpdateGameLog_mutationFn ::
  "user option \<Rightarrow> remote \<Rightarrow> jsstring \<Rightarrow> jsobj \<Rightarrow> (error + rdata) \<times> request list" where
  "useUpdateGameLog_mutationFn u remote now gameLog =
     (case u of
        None \<Rightarrow> (Inl (Error ''Must be authenticated to update game logs''), [])
      | Some x \<Rightarrow>
          if \<not> truthy (getProp gameLog ''id'')
          then (Inl (Error ''Game log ID is required for updates''), [])
          else
            (case validateGameLogInput (setProp gameLog ''game_id'' (JStr (js ''temp''))) of
               Inl e \<Rightarrow> (Inl e, [])
             | Inr validatedGameLog \<Rightarrow>
                 (let rq = Update ''user_game_logs''
                             [(''mode'', getProp validatedGameLog ''mode''),
                              (''company'', getProp validatedGameLog ''company''),
                              (''rating'', getProp validatedGameLog ''rating''),
                              (''rooted_for'', getProp validatedGameLog ''rooted_for''),
                              (''notes'', getProp validatedGameLog ''notes''),
                              (''updated_at'', JStr now)]
                             [(''id'', getProp gameLog ''id''), (''user_id'', JStr (uid x))]
                  in (unwrap (remote rq), [rq]))))"

definition useUpdateGameLog_onSuccess :: "queryCache \<Rightarrow> queryCache" where
  "useUpdateGameLog_onSuccess c = invalidateQueries c [JStr (js ''game-logs'')]"

subsection \<open>\<^verbatim>\<open>useDeleteGameLog\<close>\<close>

definition useDeleteGameLog_mutationFn ::
  "user option \<Rightarrow> remote \<Rightarrow> jsstring \<Rightarrow> (error + jsstring) \<times> request list" where
  "useDeleteGameLog_mutationFn u remote gameLogId =
     (case u of
        None \<Rightarrow> (Inl (Error ''Must be authenticated to delete game logs''), [])
      | Some x \<Rightarrow>
          if \<not> truthy (JStr gameLogId)
          then (Inl (Error ''Game log ID is required for deletion''), [])
          else
            (let rq = Delete ''user_game_logs''
                        [(''id'', JStr gameLogId), (''user_id'', JStr (uid x))]
             in (case unwrap (remote rq) of
                   Inl e \<Rightarrow> (Inl e, [rq])
                 | Inr data \<Rightarrow> (Inr gameLogId, [rq]))))"

text \<open>\<^verbatim>\<open>game.logData?.id\<close>, given the value of \<^verbatim>\<open>game.logData\<close>: \<^verbatim>\<open>undefined\<close> for
  \<^verbatim>\<open>undefined\<close> and \<^verbatim>\<open>null\<close>, the property of an object, and \<^verbatim>\<open>undefined\<close> for a
  primitive, which has no property of that name.\<close>

fun optional_id :: "jsval \<Rightarrow> jsval" where
  "optional_id (JObj ob) = getProp ob ''id''"
| "optional_id _ = JUndefined"

record mutation_context =
  previousGameLogs :: "jsobj list option"
  previousLoggedGames :: "jsobj list option"

definition useDeleteGameLog_onMutate ::
  "user option \<Rightarrow> queryCache \<Rightarrow> jsstring \<Rightarrow> mutation_context \<times> queryCache" where
  "useDeleteGameLog_onMutate u c gameLogId =
     (let c1 = cancelQueries c [JStr (js ''game-logs'')];
          c2 = cancelQueries c1 [JStr (js ''logged-games'')];
          prevGameLogs = getQueryData c2 [JStr (js ''game-logs''), user_id u];
          prevLoggedGames = getQueryData c2 [JStr (js ''logged-games''), user_id u];
          c3 = setQueryData c2 [JStr (js ''game-logs''), user_id u]
                 (\<lambda>old. case old of
                           Some logs \<Rightarrow>
                             Some (filter (\<lambda>log. getProp log ''id'' \<noteq> JStr gameLogId) logs)
                         | None \<Rightarrow> Some []);
          c4 = fold (\<lambda>query c'. setQueryData c' (fst query)
                 (\<lambda>old. case old of
                           Some games \<Rightarrow>
                             Some (filter (\<lambda>game. optional_id (getProp game ''logData'')
                                                    \<noteq> JStr gameLogId) games)
                         | None \<Rightarrow> Some []))
                 (findAll c3 [JStr (js ''logged-games'')]) c3
      in (\<lparr>previousGameLogs = prevGameLogs, previousLoggedGames = prevLoggedGames\<rparr>, c4))"

text \<open>The context is \<^verbatim>\<open>undefined\<close> (\<open>None\<close>) when \<^verbatim>\<open>onMutate\<close> did not return one.\<close>

definition useDeleteGameLog_onError ::
  "user option \<Rightarrow> queryCache \<Rightarrow> mutation_context option \<Rightarrow> queryCache" where
  "useDeleteGameLog_onError u c ctx =
     (let c1 = (case ctx of
                  Some x \<Rightarrow>
                    (case previousGameLogs x of
                       Some logs \<Rightarrow>
                         setQueryData c [JStr (js ''game-logs''), user_id u] (\<lambda>old. Some logs)
                     | None \<Rightarrow> c)
                | None \<Rightarrow> c)
      in (case ctx of
            Some x \<Rightarrow>
              (case previousLoggedGames x of
                 Some games \<Rightarrow>
                   setQueryData c1 [JStr (js ''logged-games''), user_id u] (\<lambda>old. Some games)
               | None \<Rightarrow> c1)
          | None \<Rightarrow> c1))"

definition useDeleteGameLog_onSettled :: "queryCache \<Rightarrow> queryCache" where
  "useDeleteGameLog_onSettled c =
     invalidateQueries (invalidateQueries c [JStr (js ''game-logs'')])
       [JStr (js ''logged-games'')]"

text \<open>
  One run of the delete mutation, in the order in which the query library calls the
  hook's functions: \<^verbatim>\<open>onMutate\<close>, then \<^verbatim>\<open>mutationFn\<close>, then \<^verbatim>\<open>onError\<close> if that threw,
  then \<^verbatim>\<open>onSettled\<close>. It returns the outcome, the cache, and the requests issued.
\<close>

definition useDeleteGameLog_mutate ::
  "user option \<Rightarrow> remote \<Rightarrow> queryCache \<Rightarrow> jsstring
     \<Rightarrow> (error + jsstring) \<times> queryCache \<times> request list" where
  "useDeleteGameLog_mutate u remote c gameLogId =
     (case useDeleteGameLog_onMutate u c gameLogId of (ctx, c1) \<Rightarrow>
        (case useDeleteGameLog_mutationFn u remote gameLogId of
           (Inl e, rqs) \<Rightarrow>
             (Inl e, useDeleteGameLog_onSettled (useDeleteGameLog_onError u c1 (Some ctx)), rqs)
         | (Inr deleted, rqs) \<Rightarrow>
             (Inr deleted, useDeleteGameLog_onSettled c1, rqs)))"


section \<open>Properties of the validator\<close>

subsection \<open>Auxiliary facts\<close>

lemma getProp_setProp:
  "getProp (setProp ob k v) k' = (if k' = k then v else getProp ob k')"
  by (simp add: getProp_def setProp_def update_conv')

lemma sanitize_declared: "declared_text v \<Longrightarrow> \<exists>w. sanitize v n = Inr w"
  by (cases v) (auto simp: declared_text_def Let_def)

lemma sanitize_error: "sanitize v n = Inl e \<Longrightarrow> e = TypeError"
  by (cases v) (auto simp: Let_def split: if_splits)

lemma sanitize_Str:
  "sanitize (JStr s) n = Inr (if take n (trim s) = [] then JNull else JStr (take n (trim s)))"
  by (simp add: slice_str_def Let_def)


lemma sanitize_not_empty: "sanitize v n \<noteq> Inr (JStr [])"
  by (cases v) (auto simp: Let_def)

declare sanitize.simps(3) [simp del]

lemma integer_in_range:
  "(of_int \<lfloor>q\<rfloor> = q \<and> \<not> q < 1 \<and> \<not> q > 5) = (q \<in> {1, 2, 3, 4, 5 :: rat})"
proof
  assume a: "of_int \<lfloor>q\<rfloor> = q \<and> \<not> q < 1 \<and> \<not> q > 5"
  then obtain n :: int where n: "q = of_int n" by metis
  with a have "1 \<le> n" "n \<le> 5" by simp_all
  then have "n = 1 \<or> n = 2 \<or> n = 3 \<or> n = 4 \<or> n = 5" by arith
  with n show "q \<in> {1, 2, 3, 4, 5 :: rat}" by auto
next
  assume "q \<in> {1, 2, 3, 4, 5 :: rat}"
  then show "of_int \<lfloor>q\<rfloor> = q \<and> \<not> q < 1 \<and> \<not> q > 5" by auto
qed

lemma rating_check:
  "(\<not> Number_isInteger v \<or> num_less v 1 \<or> num_greater v 5)
     = (v \<notin> JNum ` Fin ` {1, 2, 3, 4, 5})"
proof (cases v)
  case (JNum x)
  then show ?thesis
  proof (cases x)
    case (Fin q)
    with JNum integer_in_range [of q] show ?thesis by auto
  qed auto
qed auto

lemma validate_Error_iff:
  "(\<exists>msg. validateGameLogInput g = Inl (Error msg)) =
     (\<not> truthy (getProp g ''game_id'') \<or> \<not> truthy (getProp g ''mode'')
      \<or> getProp g ''mode'' \<notin> {JStr (js ''attended''), JStr (js ''watched'')}
      \<or> (getProp g ''rating'' \<noteq> JUndefined \<and> getProp g ''rating'' \<noteq> JNull
           \<and> getProp g ''rating'' \<notin> JNum ` Fin ` {1, 2, 3, 4, 5}))"
  unfolding validateGameLogInput_def rating_check
  by (auto simp: Array_includes_def split: sum.splits dest: sanitize_error)

lemma validate_Inr:
  assumes "validateGameLogInput g = Inr r"
  shows "\<exists>c n f. sanitize (getProp g ''company'') 255 = Inr c \<and>
              sanitize (getProp g ''notes'') 1000 = Inr n \<and>
              sanitize (getProp g ''rooted_for'') 100 = Inr f \<and>
              r = setProp (setProp (setProp g ''company'' c) ''notes'' n) ''rooted_for'' f"
  using assms unfolding validateGameLogInput_def
  by (auto split: sum.splits if_splits)

lemma validate_field:
  assumes "validateGameLogInput g = Inr r"
    and "(f, n) \<in> {(''company'', 255), (''notes'', 1000), (''rooted_for'', 100)}"
  shows "sanitize (getProp g f) n = Inr (getProp r f)"
  using validate_Inr [OF assms(1)] assms(2) by (auto simp: getProp_setProp)

lemma validate_other:
  assumes "validateGameLogInput g = Inr r"
    and "f \<notin> {''company'', ''notes'', ''rooted_for''}"
  shows "getProp r f = getProp g f"
  using validate_Inr [OF assms(1)] assms(2) by (auto simp: getProp_setProp)

lemma validate_TypeError:
  assumes "validateGameLogInput g = Inl TypeError"
  shows "(\<exists>e. sanitize (getProp g ''company'') 255 = Inl e)
         \<or> (\<exists>e. sanitize (getProp g ''notes'') 1000 = Inl e)
         \<or> (\<exists>e. sanitize (getProp g ''rooted_for'') 100 = Inl e)"
  using assms unfolding validateGameLogInput_def
  by (auto split: sum.splits if_splits)

lemma validate_declared:
  assumes "declared_text (getProp g ''company'')" "declared_text (getProp g ''notes'')"
    "declared_text (getProp g ''rooted_for'')"
  shows "validateGameLogInput g \<noteq> Inl TypeError"
  using validate_TypeError [of g] sanitize_declared [OF assms(1), of 255]
    sanitize_declared [OF assms(2), of 1000] sanitize_declared [OF assms(3), of 100]
  by auto

lemma validate_cases:
  "(\<exists>msg. validateGameLogInput g = Inl (Error msg)) \<or> validateGameLogInput g = Inl TypeError
     \<or> (\<exists>r. validateGameLogInput g = Inr r)"
  unfolding validateGameLogInput_def
  by (auto split: sum.splits dest: sanitize_error)

lemma trim_prefix: "\<exists>w. trim s @ w = dropWhile isWhiteSpace s"
proof -
  have "rev (takeWhile isWhiteSpace (rev (dropWhile isWhiteSpace s)) @
        dropWhile isWhiteSpace (rev (dropWhile isWhiteSpace s))) = dropWhile isWhiteSpace s"
    by simp
  then have "trim s @ rev (takeWhile isWhiteSpace (rev (dropWhile isWhiteSpace s)))
               = dropWhile isWhiteSpace s"
    by (simp only: rev_append trim_def)
  then show ?thesis by blast
qed

lemma hd_trim: "trim s \<noteq> [] \<Longrightarrow> \<not> isWhiteSpace (hd (trim s))"
proof -
  assume ne: "trim s \<noteq> []"
  obtain w where w: "trim s @ w = dropWhile isWhiteSpace s" using trim_prefix by blast
  with ne have "hd (trim s) = hd (dropWhile isWhiteSpace s)" "dropWhile isWhiteSpace s \<noteq> []"
    by (metis hd_append2, metis append_is_Nil_conv)
  then show ?thesis by (simp add: hd_dropWhile)
qed

lemma trim_unchanged:
  "s \<noteq> [] \<Longrightarrow> \<not> isWhiteSpace (hd s) \<Longrightarrow> \<not> isWhiteSpace (last s) \<Longrightarrow> trim s = s"
proof -
  assume a: "s \<noteq> []" "\<not> isWhiteSpace (hd s)" "\<not> isWhiteSpace (last s)"
  then have 1: "dropWhile isWhiteSpace s = s" by (cases s) auto
  from a have "rev s \<noteq> []" "\<not> isWhiteSpace (hd (rev s))" by (simp_all add: hd_rev)
  then have "dropWhile isWhiteSpace (rev s) = rev s" by (cases "rev s") auto
  with 1 show ?thesis by (simp add: trim_def)
qed

lemma js_simps: "js (a @ b) = js a @ js b" "js (replicate n c) = replicate n (of_char c)"
  "js (c # cs) = of_char c # js cs" "js [] = []"
  by (simp_all add: js_def)

lemma trim_padded_right:
  "\<not> isWhiteSpace a \<Longrightarrow> isWhiteSpace b \<Longrightarrow> trim (a # replicate n b) = [a]"
  by (simp add: trim_def dropWhile_append3)

lemma validate_ok:
  assumes "truthy (getProp g ''game_id'')"
    and "getProp g ''mode'' \<in> {JStr (js ''attended''), JStr (js ''watched'')}"
    and "getProp g ''rating'' = JUndefined \<or> getProp g ''rating'' = JNull
           \<or> getProp g ''rating'' \<in> JNum ` Fin ` {1, 2, 3, 4, 5}"
    and "sanitize (getProp g ''company'') 255 = Inr c"
    and "sanitize (getProp g ''notes'') 1000 = Inr n"
    and "sanitize (getProp g ''rooted_for'') 100 = Inr f"
  shows "validateGameLogInput g
           = Inr (setProp (setProp (setProp g ''company'' c) ''notes'' n) ''rooted_for'' f)"
proof -
  from assms(2) have "truthy (getProp g ''mode'')" by (auto simp: js_def)
  with assms show ?thesis
    unfolding validateGameLogInput_def rating_check
    by (auto simp: Array_includes_def)
qed

lemma validate_long_company:
  "validateGameLogInput
     [(''game_id'', JStr (js ''G1'')), (''mode'', JStr (js ''attended'')),
      (''company'', JStr (js (replicate 254 (CHR ''a'') @ '' b'')))]
   = Inr [(''game_id'', JStr (js ''G1'')), (''mode'', JStr (js ''attended'')),
          (''company'', JStr (js (replicate 254 (CHR ''a'') @ '' ''))),
          (''notes'', JNull), (''rooted_for'', JNull)]"
proof -
  have t: "trim (js (replicate 254 (CHR ''a'') @ '' b'')) = js (replicate 254 (CHR ''a'') @ '' b'')"
    by (rule trim_unchanged) (simp_all add: js_simps isWhiteSpace_def hd_append)
  have s: "sanitize (JStr (js (replicate 254 (CHR ''a'') @ '' b''))) 255
             = Inr (JStr (js (replicate 254 (CHR ''a'') @ '' '')))"
    unfolding sanitize_Str t by (simp add: js_simps)
  have "validateGameLogInput
     [(''game_id'', JStr (js ''G1'')), (''mode'', JStr (js ''attended'')),
      (''company'', JStr (js (replicate 254 (CHR ''a'') @ '' b'')))]
   = Inr (setProp (setProp (setProp
       [(''game_id'', JStr (js ''G1'')), (''mode'', JStr (js ''attended'')),
        (''company'', JStr (js (replicate 254 (CHR ''a'') @ '' b'')))]
       ''company'' (JStr (js (replicate 254 (CHR ''a'') @ '' ''))))
       ''notes'' JNull) ''rooted_for'' JNull)"
  proof (rule validate_ok)
    show "truthy (getProp [(''game_id'', JStr (js ''G1'')), (''mode'', JStr (js ''attended'')),
        (''company'', JStr (js (replicate 254 (CHR ''a'') @ '' b'')))] ''game_id'')"
      by (simp add: getProp_def js_def)
    show "sanitize (getProp [(''game_id'', JStr (js ''G1'')), (''mode'', JStr (js ''attended'')),
        (''company'', JStr (js (replicate 254 (CHR ''a'') @ '' b'')))] ''company'') 255
        = Inr (JStr (js (replicate 254 (CHR ''a'') @ '' '')))"
      using s by (simp add: getProp_def)
  qed (simp_all add: getProp_def)
  then show ?thesis by (simp add: setProp_def)
qed

lemma validate_padded_company:
  "validateGameLogInput
     [(''game_id'', JStr (js ''G1'')), (''mode'', JStr (js ''attended'')),
      (''company'', JStr (js (CHR ''a'' # replicate 255 (CHR '' ''))))]
   = Inr [(''game_id'', JStr (js ''G1'')), (''mode'', JStr (js ''attended'')),
          (''company'', JStr (js ''a'')), (''notes'', JNull), (''rooted_for'', JNull)]"
proof -
  have t: "trim (js (CHR ''a'' # replicate 255 (CHR '' ''))) = js ''a''"
    unfolding js_simps by (rule trim_padded_right) (simp_all add: isWhiteSpace_def)
  have s: "sanitize (JStr (js (CHR ''a'' # replicate 255 (CHR '' '')))) 255 = Inr (JStr (js ''a''))"
    unfolding sanitize_Str t by (simp add: js_simps)
  have "validateGameLogInput
     [(''game_id'', JStr (js ''G1'')), (''mode'', JStr (js ''attended'')),
      (''company'', JStr (js (CHR ''a'' # replicate 255 (CHR '' ''))))]
   = Inr (setProp (setProp (setProp
       [(''game_id'', JStr (js ''G1'')), (''mode'', JStr (js ''attended'')),
        (''company'', JStr (js (CHR ''a'' # replicate 255 (CHR '' ''))))]
       ''company'' (JStr (js ''a''))) ''notes'' JNull) ''rooted_for'' JNull)"
  proof (rule validate_ok)
    show "truthy (getProp [(''game_id'', JStr (js ''G1'')), (''mode'', JStr (js ''attended'')),
        (''company'', JStr (js (CHR ''a'' # replicate 255 (CHR '' ''))))] ''game_id'')"
      by (simp add: getProp_def js_def)
    show "sanitize (getProp [(''game_id'', JStr (js ''G1'')), (''mode'', JStr (js ''attended'')),
        (''company'', JStr (js (CHR ''a'' # replicate 255 (CHR '' ''))))] ''company'') 255
        = Inr (JStr (js ''a''))"
      using s by (simp add: getProp_def)
  qed (simp_all add: getProp_def)
  then show ?thesis by (simp add: setProp_def)
qed

subsection \<open>Which inputs are rejected\<close>

text \<open>Among the values of a declared string property, \<^verbatim>\<open>!x\<close> holds of \<^verbatim>\<open>undefined\<close>,
  \<^verbatim>\<open>null\<close> and the empty string only.\<close>

lemma falsy_declared_text:
  "declared_text v \<Longrightarrow> (\<not> truthy v) = (v = JUndefined \<or> v = JNull \<or> v = JStr [])"
  by (cases v) (auto simp: declared_text_def)

text \<open>
  Claim C4. The validator fails with a validation error (one of its three
  \<^verbatim>\<open>throw new Error(...)\<close>) exactly when \<^verbatim>\<open>game_id\<close> is missing, or \<^verbatim>\<open>mode\<close> is
  missing, or \<^verbatim>\<open>mode\<close> is neither \<^verbatim>\<open>attended\<close> nor \<^verbatim>\<open>watched\<close>, or \<^verbatim>\<open>rating\<close> is
  neither \<^verbatim>\<open>undefined\<close> nor \<^verbatim>\<open>null\<close> and is not one of the integers 1 to 5.
  Missing is what the code tests with \<^verbatim>\<open>!x\<close>: the property is absent, \<^verbatim>\<open>undefined\<close>,
  \<^verbatim>\<open>null\<close> or the empty string (or another falsy value, which the declared type
  \<^verbatim>\<open>string\<close> does not admit). For free-text properties of their declared type there is
  no other way to fail. When the required properties are valid and the rating is an
  integer from 1 to 5, validation succeeds and returns the rating unchanged.
\<close>

theorem validateGameLogInput_fails_iff:
  "((\<exists>msg. validateGameLogInput g = Inl (Error msg)) \<longleftrightarrow>
      (\<not> truthy (getProp g ''game_id'') \<or> \<not> truthy (getProp g ''mode'')
       \<or> getProp g ''mode'' \<notin> {JStr (js ''attended''), JStr (js ''watched'')}
       \<or> (getProp g ''rating'' \<noteq> JUndefined \<and> getProp g ''rating'' \<noteq> JNull
            \<and> getProp g ''rating'' \<notin> JNum ` Fin ` {1, 2, 3, 4, 5})))
   \<and> (declared_text (getProp g ''company'') \<and> declared_text (getProp g ''notes'')
        \<and> declared_text (getProp g ''rooted_for'') \<longrightarrow>
      ((\<exists>e. validateGameLogInput g = Inl e) \<longleftrightarrow>
        (\<not> truthy (getProp g ''game_id'') \<or> \<not> truthy (getProp g ''mode'')
         \<or> getProp g ''mode'' \<notin> {JStr (js ''attended''), JStr (js ''watched'')}
         \<or> (getProp g ''rating'' \<noteq> JUndefined \<and> getProp g ''rating'' \<noteq> JNull
              \<and> getProp g ''rating'' \<notin> JNum ` Fin ` {1, 2, 3, 4, 5}))))
   \<and> (truthy (getProp g ''game_id'')
        \<and> getProp g ''mode'' \<in> {JStr (js ''attended''), JStr (js ''watched'')}
        \<and> getProp g ''rating'' \<in> JNum ` Fin ` {1, 2, 3, 4, 5}
        \<and> declared_text (getProp g ''company'') \<and> declared_text (getProp g ''notes'')
        \<and> declared_text (getProp g ''rooted_for'') \<longrightarrow>
      (\<exists>r. validateGameLogInput g = Inr r \<and> getProp r ''rating'' = getProp g ''rating''))"
proof (intro conjI impI)
  show "(\<exists>msg. validateGameLogInput g = Inl (Error msg)) \<longleftrightarrow>
      (\<not> truthy (getProp g ''game_id'') \<or> \<not> truthy (getProp g ''mode'')
       \<or> getProp g ''mode'' \<notin> {JStr (js ''attended''), JStr (js ''watched'')}
       \<or> (getProp g ''rating'' \<noteq> JUndefined \<and> getProp g ''rating'' \<noteq> JNull
            \<and> getProp g ''rating'' \<notin> JNum ` Fin ` {1, 2, 3, 4, 5}))"
    by (rule validate_Error_iff)
next
  assume d: "declared_text (getProp g ''company'') \<and> declared_text (getProp g ''notes'')
        \<and> declared_text (getProp g ''rooted_for'')"
  then have nt: "validateGameLogInput g \<noteq> Inl TypeError" by (simp add: validate_declared)
  have "(\<exists>e. validateGameLogInput g = Inl e) = (\<exists>msg. validateGameLogInput g = Inl (Error msg))"
    using nt validate_cases [of g] by auto
  then show "(\<exists>e. validateGameLogInput g = Inl e) \<longleftrightarrow>
        (\<not> truthy (getProp g ''game_id'') \<or> \<not> truthy (getProp g ''mode'')
         \<or> getProp g ''mode'' \<notin> {JStr (js ''attended''), JStr (js ''watched'')}
         \<or> (getProp g ''rating'' \<noteq> JUndefined \<and> getProp g ''rating'' \<noteq> JNull
              \<and> getProp g ''rating'' \<notin> JNum ` Fin ` {1, 2, 3, 4, 5}))"
    by (simp only: validate_Error_iff)
next
  assume a: "truthy (getProp g ''game_id'')
        \<and> getProp g ''mode'' \<in> {JStr (js ''attended''), JStr (js ''watched'')}
        \<and> getProp g ''rating'' \<in> JNum ` Fin ` {1, 2, 3, 4, 5}
        \<and> declared_text (getProp g ''company'') \<and> declared_text (getProp g ''notes'')
        \<and> declared_text (getProp g ''rooted_for'')"
  then have nt: "validateGameLogInput g \<noteq> Inl TypeError" by (simp add: validate_declared)
  from a have "truthy (getProp g ''mode'')" by (auto simp: js_def)
  with a have "\<not> (\<exists>msg. validateGameLogInput g = Inl (Error msg))"
    unfolding validate_Error_iff by blast
  with nt validate_cases [of g] obtain r where r: "validateGameLogInput g = Inr r" by blast
  then have "getProp r ''rating'' = getProp g ''rating''" by (simp add: validate_other)
  with r show "\<exists>r. validateGameLogInput g = Inr r \<and> getProp r ''rating'' = getProp g ''rating''"
    by blast
qed

theorem validateGameLogInput_fails_iff_witness:
  "(\<exists>msg. validateGameLogInput
      [(''game_id'', JStr (js ''G1'')), (''mode'', JStr (js ''attended'')),
       (''rating'', JNum (Fin 6))] = Inl (Error msg))
   \<and> (\<exists>r. validateGameLogInput
      [(''game_id'', JStr (js ''G1'')), (''mode'', JStr (js ''attended'')),
       (''rating'', JNum (Fin 3))] = Inr r \<and> getProp r ''rating'' = JNum (Fin 3))"
  using validateGameLogInput_fails_iff [of "[(''game_id'', JStr (js ''G1'')), (''mode'', JStr (js ''attended'')),
       (''rating'', JNum (Fin 6))]"]
    validateGameLogInput_fails_iff [of "[(''game_id'', JStr (js ''G1'')), (''mode'', JStr (js ''attended'')),
       (''rating'', JNum (Fin 3))]"]
  by (simp add: getProp_def js_def declared_text_def)

subsection \<open>Free text\<close>

text \<open>
  Claim C6. On successful validation, each of \<^verbatim>\<open>company\<close>, \<^verbatim>\<open>notes\<close> and
  \<^verbatim>\<open>rooted_for\<close> that is absent, \<^verbatim>\<open>undefined\<close>, \<^verbatim>\<open>null\<close>, empty or all whitespace is
  \<^verbatim>\<open>null\<close> in the normalized copy, and none of the three is ever the empty string.
\<close>

theorem empty_text_becomes_null:
  assumes "validateGameLogInput g = Inr r"
    and "f \<in> {''company'', ''notes'', ''rooted_for''}"
  shows "(getProp g f = JUndefined \<or> getProp g f = JNull
            \<or> (\<exists>s. getProp g f = JStr s \<and> trim s = []) \<longrightarrow> getProp r f = JNull)
         \<and> getProp r f \<noteq> JStr []"
proof -
  from assms(2) obtain n where
    n: "(f, n) \<in> {(''company'', 255), (''notes'', 1000), (''rooted_for'', 100 :: nat)}"
    by auto
  have s: "sanitize (getProp g f) n = Inr (getProp r f)"
    by (rule validate_field [OF assms(1) n])
  then have "getProp r f \<noteq> JStr []" using sanitize_not_empty [of "getProp g f" n] by auto
  moreover have "getProp g f = JUndefined \<or> getProp g f = JNull
            \<or> (\<exists>s. getProp g f = JStr s \<and> trim s = []) \<longrightarrow> getProp r f = JNull"
    using s by (auto simp: sanitize_Str)
  ultimately show ?thesis by blast
qed

theorem empty_text_becomes_null_witness:
  "getProp [(''game_id'', JStr (js ''G1'')), (''mode'', JStr (js ''attended'')),
          (''company'', JStr (js (replicate 254 (CHR ''a'') @ '' ''))),
          (''notes'', JNull), (''rooted_for'', JNull)] ''notes'' = JNull
   \<and> getProp [(''game_id'', JStr (js ''G1'')), (''mode'', JStr (js ''attended'')),
          (''company'', JStr (js (replicate 254 (CHR ''a'') @ '' ''))),
          (''notes'', JNull), (''rooted_for'', JNull)] ''notes'' \<noteq> JStr []"
  using empty_text_becomes_null [OF validate_long_company, of "''notes''"]
  by (simp add: getProp_def)


text \<open>
  Claim C5, as the code has it. For each of \<^verbatim>\<open>company\<close>, \<^verbatim>\<open>notes\<close> and
  \<^verbatim>\<open>rooted_for\<close> whose content still exceeds the field's cap (255, 1000, 100) after
  trimming, the normalized value is the first cap code units of the trimmed content: its
  length is exactly the cap and it does not start with whitespace. (Trimming comes before
  truncation, so the cut can leave whitespace at the end, and a value that is long only
  because of surrounding whitespace comes out shorter than the cap.)
\<close>

theorem sanitized_text_over_cap:
  assumes "validateGameLogInput g = Inr r"
    and "(f, n) \<in> {(''company'', 255), (''notes'', 1000), (''rooted_for'', 100)}"
    and "getProp g f = JStr s"
    and "length (trim s) > n"
  shows "getProp r f = JStr (take n (trim s)) \<and> length (take n (trim s)) = n
         \<and> \<not> isWhiteSpace (hd (take n (trim s)))"
proof -
  from assms(2) have n: "0 < n" by auto
  with assms(4) have ne: "take n (trim s) \<noteq> []" "trim s \<noteq> []" by auto
  have "sanitize (getProp g f) n = Inr (getProp r f)"
    by (rule validate_field [OF assms(1,2)])
  with assms(3) ne have 1: "getProp r f = JStr (take n (trim s))" by (simp add: sanitize_Str)
  from assms(4) have 2: "length (take n (trim s)) = n" by simp
  from n have "hd (take n (trim s)) = hd (trim s)" by (simp add: hd_take)
  with hd_trim [OF ne(2)] have 3: "\<not> isWhiteSpace (hd (take n (trim s)))" by simp
  from 1 2 3 show ?thesis by blast
qed


theorem sanitized_text_over_cap_witness:
  "getProp [(''game_id'', JStr (js ''G1'')), (''mode'', JStr (js ''attended'')),
          (''company'', JStr (js (replicate 254 (CHR ''a'') @ '' ''))),
          (''notes'', JNull), (''rooted_for'', JNull)] ''company''
     = JStr (take 255 (trim (js (replicate 254 (CHR ''a'') @ '' b''))))
   \<and> length (take 255 (trim (js (replicate 254 (CHR ''a'') @ '' b'')))) = 255
   \<and> \<not> isWhiteSpace (hd (take 255 (trim (js (replicate 254 (CHR ''a'') @ '' b'')))))"
proof -
  have t: "trim (js (replicate 254 (CHR ''a'') @ '' b'')) = js (replicate 254 (CHR ''a'') @ '' b'')"
    by (rule trim_unchanged) (simp_all add: js_simps isWhiteSpace_def hd_append)
  have l: "255 < length (trim (js (replicate 254 (CHR ''a'') @ '' b'')))"
    unfolding t by (simp add: js_simps)
  have m: "(''company'', 255) \<in> {(''company'', 255), (''notes'', 1000), (''rooted_for'', 100 :: nat)}"
    by simp
  have p: "getProp [(''game_id'', JStr (js ''G1'')), (''mode'', JStr (js ''attended'')),
      (''company'', JStr (js (replicate 254 (CHR ''a'') @ '' b'')))] ''company''
      = JStr (js (replicate 254 (CHR ''a'') @ '' b''))"
    by (simp add: getProp_def)
  show ?thesis by (rule sanitized_text_over_cap [OF validate_long_company m p l])
qed


text \<open>
  The claim as stated fails. A \<^verbatim>\<open>company\<close> of 254 letters, a space and one more letter
  exceeds the cap of 255 and is normalized to the 254 letters followed by the space:
  trailing whitespace. A \<^verbatim>\<open>company\<close> of one letter followed by 255 spaces exceeds the cap
  as well and is normalized to the single letter: length 1, not 255.
\<close>

theorem sanitized_text_trailing_space:
  "validateGameLogInput
     [(''game_id'', JStr (js ''G1'')), (''mode'', JStr (js ''attended'')),
      (''company'', JStr (js (replicate 254 (CHR ''a'') @ '' b'')))]
   = Inr [(''game_id'', JStr (js ''G1'')), (''mode'', JStr (js ''attended'')),
          (''company'', JStr (js (replicate 254 (CHR ''a'') @ '' ''))),
          (''notes'', JNull), (''rooted_for'', JNull)]
   \<and> length (js (replicate 254 (CHR ''a'') @ '' b'')) = 256
   \<and> isWhiteSpace (last (js (replicate 254 (CHR ''a'') @ '' '')))
   \<and> validateGameLogInput
     [(''game_id'', JStr (js ''G1'')), (''mode'', JStr (js ''attended'')),
      (''company'', JStr (js (CHR ''a'' # replicate 255 (CHR '' ''))))]
   = Inr [(''game_id'', JStr (js ''G1'')), (''mode'', JStr (js ''attended'')),
          (''company'', JStr (js ''a'')), (''notes'', JNull), (''rooted_for'', JNull)]
   \<and> length (js (CHR ''a'' # replicate 255 (CHR '' ''))) = 256
   \<and> length (js ''a'') = 1"
  using validate_long_company validate_padded_company
  by (simp add: js_simps isWhiteSpace_def)


section \<open>Properties of the read and write operations\<close>

lemma store_select_descending:
  "store_select ts rows [(c, v)] (col, False) =
     rev (sort_key (\<lambda>r. ts (getProp r col)) (filter (\<lambda>r. getProp r c = v) rows))"
  by (simp add: store_select_def)

lemma sorted_wrt_rev_sort_key:
  "sorted_wrt (\<lambda>a b. f b \<le> f a) (rev (sort_key f xs))"
proof -
  have "sorted (map f (sort_key f xs))" by (rule sorted_sort_key)
  then have "sorted_wrt (\<lambda>a b. f a \<le> f b) (sort_key f xs)" by (simp add: sorted_map)
  then show ?thesis by (simp add: sorted_wrt_rev)
qed

lemma validate_alex:
  "validateGameLogInput
     [(''user_id'', JStr (js ''V'')), (''game_id'', JStr (js ''G1'')),
      (''mode'', JStr (js ''attended'')), (''company'', JStr (js ''  Alex  ''))]
   = Inr [(''user_id'', JStr (js ''V'')), (''game_id'', JStr (js ''G1'')),
          (''mode'', JStr (js ''attended'')), (''company'', JStr (js ''Alex'')),
          (''notes'', JNull), (''rooted_for'', JNull)]"
  by code_simp

lemma validate_edit:
  "validateGameLogInput (setProp
     [(''id'', JStr (js ''E'')), (''mode'', JStr (js ''watched'')),
      (''user_id'', JStr (js ''V'')), (''notes'', JStr (js '' hi ''))]
     ''game_id'' (JStr (js ''temp'')))
   = Inr [(''id'', JStr (js ''E'')), (''mode'', JStr (js ''watched'')),
          (''user_id'', JStr (js ''V'')), (''notes'', JStr (js ''hi'')),
          (''game_id'', JStr (js ''temp'')), (''company'', JNull), (''rooted_for'', JNull)]"
  by code_simp

text \<open>
  Claim C7. Without a session, the list operation returns the empty sequence, not an
  error, and issues no request (and the query is disabled, so the library does not run it
  by itself). With a session it issues one select on \<^verbatim>\<open>user_game_logs\<close>, filtered by
  \<^verbatim>\<open>user_id\<close> = the session identity and ordered by \<^verbatim>\<open>created_at\<close> descending; when
  the store answers that select over its rows, the result is exactly that user's rows,
  newest-created first.
\<close>

theorem useGameLogs_list:
  "queryFn (useGameLogs None) remote = (Inr (Rows []), [])
   \<and> \<not> enabled (useGameLogs None)
   \<and> snd (queryFn (useGameLogs (Some x)) remote)
       = [Select ''user_game_logs'' ''*'' [(''user_id'', JStr (uid x))] (''created_at'', False)]
   \<and> (remote (Select ''user_game_logs'' ''*'' [(''user_id'', JStr (uid x))]
                 (''created_at'', False))
         = (Rows (store_select ts rows [(''user_id'', JStr (uid x))] (''created_at'', False)),
            None) \<longrightarrow>
       (\<exists>res. fst (queryFn (useGameLogs (Some x)) remote) = Inr (Rows res)
          \<and> set res = {r \<in> set rows. getProp r ''user_id'' = JStr (uid x)}
          \<and> length res = length (filter (\<lambda>r. getProp r ''user_id'' = JStr (uid x)) rows)
          \<and> sorted_wrt (\<lambda>a b. ts (getProp b ''created_at'') \<le> ts (getProp a ''created_at''))
               res))"
proof (intro conjI impI)
  show "queryFn (useGameLogs None) remote = (Inr (Rows []), [])"
    by (simp add: useGameLogs_def)
  show "\<not> enabled (useGameLogs None)"
    by (simp add: useGameLogs_def)
  show "snd (queryFn (useGameLogs (Some x)) remote)
       = [Select ''user_game_logs'' ''*'' [(''user_id'', JStr (uid x))] (''created_at'', False)]"
    by (simp add: useGameLogs_def Let_def)
next
  let ?res = "store_select ts rows [(''user_id'', JStr (uid x))] (''created_at'', False)"
  assume "remote (Select ''user_game_logs'' ''*'' [(''user_id'', JStr (uid x))]
                 (''created_at'', False)) = (Rows ?res, None)"
  then have 1: "fst (queryFn (useGameLogs (Some x)) remote) = Inr (Rows ?res)"
    by (simp add: useGameLogs_def Let_def unwrap_def)
  have 2: "set ?res = {r \<in> set rows. getProp r ''user_id'' = JStr (uid x)}"
    unfolding store_select_descending by auto
  have 3: "length ?res = length (filter (\<lambda>r. getProp r ''user_id'' = JStr (uid x)) rows)"
    unfolding store_select_descending by simp
  have 4: "sorted_wrt (\<lambda>a b. ts (getProp b ''created_at'') \<le> ts (getProp a ''created_at''))
             ?res"
    unfolding store_select_descending by (rule sorted_wrt_rev_sort_key)
  from 1 2 3 4 show "\<exists>res. fst (queryFn (useGameLogs (Some x)) remote) = Inr (Rows res)
          \<and> set res = {r \<in> set rows. getProp r ''user_id'' = JStr (uid x)}
          \<and> length res = length (filter (\<lambda>r. getProp r ''user_id'' = JStr (uid x)) rows)
          \<and> sorted_wrt (\<lambda>a b. ts (getProp b ''created_at'') \<le> ts (getProp a ''created_at''))
               res"
    by blast
qed

theorem useGameLogs_list_witness:
  "(\<lambda>rq. case rq of
       Select t cols eqs ord \<Rightarrow>
         (Rows (store_select (\<lambda>v. case v of JNum (Fin q) \<Rightarrow> \<lfloor>q\<rfloor> | _ \<Rightarrow> 0)
            [[(''user_id'', JStr (js ''U'')), (''created_at'', JNum (Fin 1))],
             [(''user_id'', JStr (js ''V'')), (''created_at'', JNum (Fin 2))],
             [(''user_id'', JStr (js ''U'')), (''created_at'', JNum (Fin 3))]] eqs ord), None)
     | _ \<Rightarrow> (NoData, Some ''unsupported''))
     (Select ''user_game_logs'' ''*'' [(''user_id'', JStr (uid (User (js ''U''))))]
        (''created_at'', False))
   = (Rows (store_select (\<lambda>v. case v of JNum (Fin q) \<Rightarrow> \<lfloor>q\<rfloor> | _ \<Rightarrow> 0)
        [[(''user_id'', JStr (js ''U'')), (''created_at'', JNum (Fin 1))],
         [(''user_id'', JStr (js ''V'')), (''created_at'', JNum (Fin 2))],
         [(''user_id'', JStr (js ''U'')), (''created_at'', JNum (Fin 3))]]
        [(''user_id'', JStr (uid (User (js ''U''))))] (''created_at'', False)), None)
   \<and> (\<exists>res. fst (queryFn (useGameLogs (Some (User (js ''U''))))
        (\<lambda>rq. case rq of
           Select t cols eqs ord \<Rightarrow>
             (Rows (store_select (\<lambda>v. case v of JNum (Fin q) \<Rightarrow> \<lfloor>q\<rfloor> | _ \<Rightarrow> 0)
                [[(''user_id'', JStr (js ''U'')), (''created_at'', JNum (Fin 1))],
                 [(''user_id'', JStr (js ''V'')), (''created_at'', JNum (Fin 2))],
                 [(''user_id'', JStr (js ''U'')), (''created_at'', JNum (Fin 3))]] eqs ord), None)
         | _ \<Rightarrow> (NoData, Some ''unsupported''))) = Inr (Rows res)
      \<and> length res = length (filter (\<lambda>r. getProp r ''user_id'' = JStr (uid (User (js ''U''))))
            [[(''user_id'', JStr (js ''U'')), (''created_at'', JNum (Fin 1))],
             [(''user_id'', JStr (js ''V'')), (''created_at'', JNum (Fin 2))],
             [(''user_id'', JStr (js ''U'')), (''created_at'', JNum (Fin 3))]])
      \<and> sorted_wrt (\<lambda>a b. (case getProp b ''created_at'' of JNum (Fin q) \<Rightarrow> \<lfloor>q\<rfloor> | _ \<Rightarrow> 0)
                          \<le> (case getProp a ''created_at'' of JNum (Fin q) \<Rightarrow> \<lfloor>q\<rfloor> | _ \<Rightarrow> 0))
           res)
   \<and> fst (queryFn (useGameLogs (Some (User (js ''U''))))
        (\<lambda>rq. case rq of
           Select t cols eqs ord \<Rightarrow>
             (Rows (store_select (\<lambda>v. case v of JNum (Fin q) \<Rightarrow> \<lfloor>q\<rfloor> | _ \<Rightarrow> 0)
                [[(''user_id'', JStr (js ''U'')), (''created_at'', JNum (Fin 1))],
                 [(''user_id'', JStr (js ''V'')), (''created_at'', JNum (Fin 2))],
                 [(''user_id'', JStr (js ''U'')), (''created_at'', JNum (Fin 3))]] eqs ord), None)
         | _ \<Rightarrow> (NoData, Some ''unsupported'')))
     = Inr (Rows [[(''user_id'', JStr (js ''U'')), (''created_at'', JNum (Fin 3))],
                  [(''user_id'', JStr (js ''U'')), (''created_at'', JNum (Fin 1))]])"
proof -
  let ?ts = "\<lambda>v. case v of JNum (Fin q) \<Rightarrow> \<lfloor>q\<rfloor> | _ \<Rightarrow> (0::int)"
  let ?rows = "[[(''user_id'', JStr (js ''U'')), (''created_at'', JNum (Fin 1))],
             [(''user_id'', JStr (js ''V'')), (''created_at'', JNum (Fin 2))],
             [(''user_id'', JStr (js ''U'')), (''created_at'', JNum (Fin 3))]]"
  let ?remote = "\<lambda>rq. case rq of
           Select t cols eqs ord \<Rightarrow> (Rows (store_select ?ts ?rows eqs ord), None)
         | _ \<Rightarrow> (NoData, Some ''unsupported'')"
  have h: "?remote (Select ''user_game_logs'' ''*'' [(''user_id'', JStr (uid (User (js ''U''))))]
              (''created_at'', False))
           = (Rows (store_select ?ts ?rows [(''user_id'', JStr (uid (User (js ''U''))))]
                (''created_at'', False)), None)"
    by simp
  have e: "fst (queryFn (useGameLogs (Some (User (js ''U'')))) ?remote)
     = Inr (Rows [[(''user_id'', JStr (js ''U'')), (''created_at'', JNum (Fin 3))],
                  [(''user_id'', JStr (js ''U'')), (''created_at'', JNum (Fin 1))]])"
    by code_simp
  from h useGameLogs_list [of ?remote "User (js ''U'')" ?ts ?rows] e
  show ?thesis by blast
qed

text \<open>
  Claim C8. Without a session, create fails with the authentication error, whatever the
  input, and issues no request. With a session, an input that fails validation issues no
  request; a valid one issues one insert whose row has \<^verbatim>\<open>user_id\<close> equal to the session
  identity, whatever \<^verbatim>\<open>user_id\<close> the caller supplied, and otherwise the validated
  properties.
\<close>

theorem useAddGameLog_forces_user_id:
  "useAddGameLog_mutationFn None remote g
     = (Inl (Error ''Must be authenticated to add game logs''), [])
   \<and> (\<forall>e. validateGameLogInput g = Inl e \<longrightarrow>
         useAddGameLog_mutationFn (Some x) remote g = (Inl e, []))
   \<and> (\<forall>v. validateGameLogInput g = Inr v \<longrightarrow>
         (\<exists>row. snd (useAddGameLog_mutationFn (Some x) remote g)
                  = [Insert ''user_game_logs'' row]
            \<and> getProp row ''user_id'' = JStr (uid x)
            \<and> (\<forall>f. f \<noteq> ''user_id'' \<longrightarrow> getProp row f = getProp v f)))
   \<and> (\<forall>rq \<in> set (snd (useAddGameLog_mutationFn (Some x) remote g)).
         \<exists>row. rq = Insert ''user_game_logs'' row \<and> getProp row ''user_id'' = JStr (uid x))"
  by (cases "validateGameLogInput g")
     (simp_all add: useAddGameLog_mutationFn_def Let_def getProp_setProp)

theorem useAddGameLog_forces_user_id_witness:
  "validateGameLogInput
     [(''user_id'', JStr (js ''V'')), (''game_id'', JStr (js ''G1'')),
      (''mode'', JStr (js ''attended'')), (''company'', JStr (js ''  Alex  ''))]
   = Inr [(''user_id'', JStr (js ''V'')), (''game_id'', JStr (js ''G1'')),
          (''mode'', JStr (js ''attended'')), (''company'', JStr (js ''Alex'')),
          (''notes'', JNull), (''rooted_for'', JNull)]
   \<and> (\<exists>row. snd (useAddGameLog_mutationFn (Some (User (js ''U''))) (\<lambda>rq. (Row [], None))
         [(''user_id'', JStr (js ''V'')), (''game_id'', JStr (js ''G1'')),
          (''mode'', JStr (js ''attended'')), (''company'', JStr (js ''  Alex  ''))])
        = [Insert ''user_game_logs'' row]
      \<and> getProp row ''user_id'' = JStr (js ''U'')
      \<and> getProp row ''company'' = JStr (js ''Alex''))"
proof -
  from useAddGameLog_forces_user_id [of "\<lambda>rq. (Row [], None)"
     "[(''user_id'', JStr (js ''V'')), (''game_id'', JStr (js ''G1'')),
       (''mode'', JStr (js ''attended'')), (''company'', JStr (js ''  Alex  ''))]"
     "User (js ''U'')"] validate_alex
  obtain row where row:
    "snd (useAddGameLog_mutationFn (Some (User (js ''U''))) (\<lambda>rq. (Row [], None))
         [(''user_id'', JStr (js ''V'')), (''game_id'', JStr (js ''G1'')),
          (''mode'', JStr (js ''attended'')), (''company'', JStr (js ''  Alex  ''))])
        = [Insert ''user_game_logs'' row]"
    "getProp row ''user_id'' = JStr (uid (User (js ''U'')))"
    "\<forall>f. f \<noteq> ''user_id'' \<longrightarrow> getProp row f
        = getProp [(''user_id'', JStr (js ''V'')), (''game_id'', JStr (js ''G1'')),
          (''mode'', JStr (js ''attended'')), (''company'', JStr (js ''Alex'')),
          (''notes'', JNull), (''rooted_for'', JNull)] f"
    by auto
  from row(3) have "getProp row ''company'' = JStr (js ''Alex'')"
    by (simp add: getProp_def)
  with row(1,2) validate_alex show ?thesis by auto
qed

text \<open>
  Claim C9. Update fails without any request when there is no session or the target id
  is empty. With a session and a target id, an input that fails validation (run with the
  sentinel \<^verbatim>\<open>game_id\<close>) issues no request; a valid one issues one update whose fields are
  exactly \<^verbatim>\<open>mode\<close>, \<^verbatim>\<open>company\<close>, \<^verbatim>\<open>rating\<close>, \<^verbatim>\<open>rooted_for\<close>, \<^verbatim>\<open>notes\<close> (the
  validated values) and \<^verbatim>\<open>updated_at\<close> (the current time), so neither \<^verbatim>\<open>game_id\<close> nor
  \<^verbatim>\<open>user_id\<close>, filtered by \<^verbatim>\<open>id\<close> = target and \<^verbatim>\<open>user_id\<close> = session identity.
\<close>

theorem useUpdateGameLog_written_fields:
  "useUpdateGameLog_mutationFn None remote now g
     = (Inl (Error ''Must be authenticated to update game logs''), [])
   \<and> (\<not> truthy (getProp g ''id'') \<longrightarrow>
        useUpdateGameLog_mutationFn (Some x) remote now g
          = (Inl (Error ''Game log ID is required for updates''), []))
   \<and> (truthy (getProp g ''id'') \<longrightarrow>
        (case validateGameLogInput (setProp g ''game_id'' (JStr (js ''temp''))) of
           Inl e \<Rightarrow> useUpdateGameLog_mutationFn (Some x) remote now g = (Inl e, [])
         | Inr v \<Rightarrow>
             snd (useUpdateGameLog_mutationFn (Some x) remote now g)
               = [Update ''user_game_logs''
                    [(''mode'', getProp v ''mode''), (''company'', getProp v ''company''),
                     (''rating'', getProp v ''rating''),
                     (''rooted_for'', getProp v ''rooted_for''),
                     (''notes'', getProp v ''notes''), (''updated_at'', JStr now)]
                    [(''id'', getProp g ''id''), (''user_id'', JStr (uid x))]]))
   \<and> (\<forall>rq \<in> set (snd (useUpdateGameLog_mutationFn (Some x) remote now g)).
         \<exists>fields. rq = Update ''user_game_logs'' fields
                          [(''id'', getProp g ''id''), (''user_id'', JStr (uid x))]
           \<and> map fst fields = [''mode'', ''company'', ''rating'', ''rooted_for'', ''notes'',
                                ''updated_at'']
           \<and> ''game_id'' \<notin> fst ` set fields \<and> ''user_id'' \<notin> fst ` set fields
           \<and> getProp fields ''updated_at'' = JStr now)"
  by (cases "validateGameLogInput (setProp g ''game_id'' (JStr (js ''temp'')))")
     (simp_all add: useUpdateGameLog_mutationFn_def Let_def getProp_def)

theorem useUpdateGameLog_written_fields_witness:
  "truthy (getProp [(''id'', JStr (js ''E'')), (''mode'', JStr (js ''watched'')),
      (''user_id'', JStr (js ''V'')), (''notes'', JStr (js '' hi ''))] ''id'')
   \<and> snd (useUpdateGameLog_mutationFn (Some (User (js ''U''))) (\<lambda>rq. (Row [], None))
        (js ''2024-05-01T12:00:00.000Z'')
        [(''id'', JStr (js ''E'')), (''mode'', JStr (js ''watched'')),
         (''user_id'', JStr (js ''V'')), (''notes'', JStr (js '' hi ''))])
     = [Update ''user_game_logs''
          [(''mode'', JStr (js ''watched'')), (''company'', JNull), (''rating'', JUndefined),
           (''rooted_for'', JNull), (''notes'', JStr (js ''hi'')),
           (''updated_at'', JStr (js ''2024-05-01T12:00:00.000Z''))]
          [(''id'', JStr (js ''E'')), (''user_id'', JStr (js ''U''))]]"
proof -
  have t: "truthy (getProp [(''id'', JStr (js ''E'')), (''mode'', JStr (js ''watched'')),
      (''user_id'', JStr (js ''V'')), (''notes'', JStr (js '' hi ''))] ''id'')"
    by (simp add: getProp_def js_def)
  from t useUpdateGameLog_written_fields [of "\<lambda>rq. (Row [], None)"
      "js ''2024-05-01T12:00:00.000Z''"
      "[(''id'', JStr (js ''E'')), (''mode'', JStr (js ''watched'')),
        (''user_id'', JStr (js ''V'')), (''notes'', JStr (js '' hi ''))]" "User (js ''U'')"]
  show ?thesis
    unfolding validate_edit by (simp add: getProp_def)
qed

section \<open>Properties of the optimistic delete\<close>

subsection \<open>Auxiliary facts about the cache\<close>

lemma map_of_map_queries:
  "map_of (map (\<lambda>(k, q). if P k then (k, f q) else (k, q)) c) k
     = map_option (\<lambda>q. if P k then f q else q) (map_of c k)"
  by (induction c) auto

lemma getQueryData_cancelQueries [simp]:
  "getQueryData (cancelQueries c p) k = getQueryData c k"
  by (simp add: getQueryData_def cancelQueries_def map_of_map_queries split: option.splits)

lemma getQueryData_invalidateQueries [simp]:
  "getQueryData (invalidateQueries c p) k = getQueryData c k"
  by (simp add: getQueryData_def invalidateQueries_def map_of_map_queries split: option.splits)

lemma keys_cancelQueries [simp]: "fst ` set (cancelQueries c p) = fst ` set c"
  by (induction c) (auto simp: cancelQueries_def)

lemma keys_invalidateQueries [simp]: "fst ` set (invalidateQueries c p) = fst ` set c"
  by (induction c) (auto simp: invalidateQueries_def)

lemma getQueryData_setQueryData:
  "getQueryData (setQueryData c k upd) k' =
     (if k' = k then (case upd (getQueryData c k) of None \<Rightarrow> getQueryData c k | Some d \<Rightarrow> Some d)
      else getQueryData c k')"
  by (auto simp: getQueryData_def setQueryData_def update_conv' split: option.splits)

lemma keys_setQueryData:
  "fst ` set (setQueryData c k upd) =
     (if upd (getQueryData c k) = None then fst ` set c else insert k (fst ` set c))"
proof (cases "upd (getQueryData c k)")
  case None
  then show ?thesis by (simp add: setQueryData_def)
next
  case (Some d)
  show ?thesis
  proof (cases "map_of c k")
    case None
    with Some show ?thesis by (simp add: setQueryData_def)
  next
    case (Some q)
    then have "k \<in> fst ` set c" by (metis map_of_eq_None_iff option.distinct(1))
    with Some \<open>upd (getQueryData c k) = Some d\<close> show ?thesis
      using update_keys [of k _ c] by (auto simp: setQueryData_def simp flip: set_map)
  qed
qed

lemma keys_findAll:
  "fst ` set (findAll c p) = {k \<in> fst ` set c. partialMatchKey k p}"
  by (force simp: findAll_def)

lemma getQueryData_fold_setQueryData:
  assumes "\<And>d. \<exists>e. upd d = Some e" and "\<And>d. upd (upd d) = upd d"
  shows "getQueryData (fold (\<lambda>query c'. setQueryData c' (fst query) upd) qs c) k =
           (if k \<in> fst ` set qs then upd (getQueryData c k) else getQueryData c k)"
proof (induction qs arbitrary: c)
  case Nil
  then show ?case by simp
next
  case (Cons x qs)
  obtain e where e: "upd (getQueryData c (fst x)) = Some e" using assms(1) by blast
  have step: "getQueryData (setQueryData c (fst x) upd) k
                = (if k = fst x then upd (getQueryData c k) else getQueryData c k)"
    using e by (auto simp: getQueryData_setQueryData)
  have "getQueryData (fold (\<lambda>query c'. setQueryData c' (fst query) upd) (x # qs) c) k
          = (if k \<in> fst ` set qs then upd (getQueryData (setQueryData c (fst x) upd) k)
             else getQueryData (setQueryData c (fst x) upd) k)"
    by (simp add: Cons.IH)
  also have "\<dots> = (if k \<in> fst ` set (x # qs) then upd (getQueryData c k)
                     else getQueryData c k)"
    unfolding step using assms(2) by auto
  finally show ?case .
qed

lemma key_names_distinct:
  "js ''game-logs'' \<noteq> js ''logged-games''" "js ''logged-games'' \<noteq> js ''game-logs''"
  by (simp_all add: js_def)

lemma not_under_logged_games [simp]:
  "\<not> partialMatchKey [JStr (js ''game-logs''), x] [JStr (js ''logged-games'')]"
  by (simp add: partialMatchKey_def js_def)

lemma under_logged_games [simp]:
  "partialMatchKey [JStr (js ''logged-games''), x] [JStr (js ''logged-games'')]"
  by (simp add: partialMatchKey_def)

lemma onMutate_context:
  "fst (useDeleteGameLog_onMutate u c X) =
     \<lparr>previousGameLogs = getQueryData c [JStr (js ''game-logs''), user_id u],
      previousLoggedGames = getQueryData c [JStr (js ''logged-games''), user_id u]\<rparr>"
  by (simp add: useDeleteGameLog_onMutate_def Let_def)

lemma onMutate_data:
  "getQueryData (snd (useDeleteGameLog_onMutate u c X)) k =
     (if k = [JStr (js ''game-logs''), user_id u]
      then (case getQueryData c k of
              Some logs \<Rightarrow> Some (filter (\<lambda>log. getProp log ''id'' \<noteq> JStr X) logs)
            | None \<Rightarrow> Some [])
      else if k \<in> fst ` set c \<and> partialMatchKey k [JStr (js ''logged-games'')]
      then (case getQueryData c k of
              Some games \<Rightarrow>
                Some (filter (\<lambda>game. optional_id (getProp game ''logData'') \<noteq> JStr X) games)
            | None \<Rightarrow> Some [])
      else getQueryData c k)"
proof -
  let ?gl = "[JStr (js ''game-logs''), user_id u]"
  let ?c2 = "cancelQueries (cancelQueries c [JStr (js ''game-logs'')]) [JStr (js ''logged-games'')]"
  let ?upd1 = "\<lambda>old. case old of
                 Some logs \<Rightarrow> Some (filter (\<lambda>log. getProp log ''id'' \<noteq> JStr X) logs)
               | None \<Rightarrow> Some []"
  let ?upd2 = "\<lambda>old. case old of
                 Some games \<Rightarrow>
                   Some (filter (\<lambda>game. optional_id (getProp game ''logData'') \<noteq> JStr X) games)
               | None \<Rightarrow> Some []"
  let ?c3 = "setQueryData ?c2 ?gl ?upd1"
  have snd_eq: "snd (useDeleteGameLog_onMutate u c X)
          = fold (\<lambda>query c'. setQueryData c' (fst query) ?upd2)
              (findAll ?c3 [JStr (js ''logged-games'')]) ?c3"
    by (simp add: useDeleteGameLog_onMutate_def Let_def)
  have some: "\<And>d. \<exists>e. ?upd2 d = Some e" by (simp split: option.splits)
  have idem: "\<And>d. ?upd2 (?upd2 d) = ?upd2 d" by (simp split: option.splits)
  have keys3: "fst ` set ?c3 = insert ?gl (fst ` set c)"
    by (simp add: keys_setQueryData split: option.splits)
  have found: "k \<in> fst ` set (findAll ?c3 [JStr (js ''logged-games'')])
                 \<longleftrightarrow> k \<in> fst ` set c \<and> partialMatchKey k [JStr (js ''logged-games'')]"
    unfolding keys_findAll keys3 by auto
  have data3: "getQueryData ?c3 k = (if k = ?gl then ?upd1 (getQueryData c k) else getQueryData c k)"
    by (simp add: getQueryData_setQueryData split: option.splits)
  have "getQueryData (snd (useDeleteGameLog_onMutate u c X)) k
          = (if k \<in> fst ` set c \<and> partialMatchKey k [JStr (js ''logged-games'')]
             then ?upd2 (getQueryData ?c3 k) else getQueryData ?c3 k)"
    unfolding snd_eq getQueryData_fold_setQueryData [of ?upd2, OF some idem] found ..
  then show ?thesis
    unfolding data3 by auto
qed

lemma onError_data:
  "getQueryData (useDeleteGameLog_onError u c (Some ctx)) k =
     (if k = [JStr (js ''logged-games''), user_id u] \<and> previousLoggedGames ctx \<noteq> None
      then previousLoggedGames ctx
      else if k = [JStr (js ''game-logs''), user_id u] \<and> previousGameLogs ctx \<noteq> None
      then previousGameLogs ctx
      else getQueryData c k)"
  by (auto simp: useDeleteGameLog_onError_def getQueryData_setQueryData js_def
           split: option.splits)

lemma onSettled_data [simp]:
  "getQueryData (useDeleteGameLog_onSettled c) k = getQueryData c k"
  by (simp add: useDeleteGameLog_onSettled_def)

lemma in_invalidateQueries:
  "(k, q) \<in> set (invalidateQueries c p) \<longleftrightarrow>
     (\<exists>q0. (k, q0) \<in> set c \<and>
        q = (if partialMatchKey k p
             then q0\<lparr>isInvalidated := True, isFetching := (isFetching q0 \<or> active q0)\<rparr>
             else q0))"
proof
  assume "(k, q) \<in> set (invalidateQueries c p)"
  then obtain k0 q0 where "(k0, q0) \<in> set c"
    "(k, q) = (if partialMatchKey k0 p
               then (k0, q0\<lparr>isInvalidated := True, isFetching := (isFetching q0 \<or> active q0)\<rparr>)
               else (k0, q0))"
    by (auto simp: invalidateQueries_def)
  then show "\<exists>q0. (k, q0) \<in> set c \<and>
        q = (if partialMatchKey k p
             then q0\<lparr>isInvalidated := True, isFetching := (isFetching q0 \<or> active q0)\<rparr>
             else q0)"
    by (cases "partialMatchKey k0 p") auto
next
  assume "\<exists>q0. (k, q0) \<in> set c \<and>
        q = (if partialMatchKey k p
             then q0\<lparr>isInvalidated := True, isFetching := (isFetching q0 \<or> active q0)\<rparr>
             else q0)"
  then show "(k, q) \<in> set (invalidateQueries c p)"
    by (force simp: invalidateQueries_def)
qed

lemma onSettled_marks:
  assumes "(k, q) \<in> set (useDeleteGameLog_onSettled c)"
    and "partialMatchKey k [JStr (js ''game-logs'')] \<or> partialMatchKey k [JStr (js ''logged-games'')]"
  shows "isInvalidated q \<and> (active q \<longrightarrow> isFetching q)"
proof -
  from assms(1) obtain q1 where q1:
    "(k, q1) \<in> set (invalidateQueries c [JStr (js ''game-logs'')])"
    "q = (if partialMatchKey k [JStr (js ''logged-games'')]
          then q1\<lparr>isInvalidated := True, isFetching := (isFetching q1 \<or> active q1)\<rparr>
          else q1)"
    unfolding useDeleteGameLog_onSettled_def in_invalidateQueries [of k q] by blast
  from q1(1) obtain q0 where q0: "(k, q0) \<in> set c"
    "q1 = (if partialMatchKey k [JStr (js ''game-logs'')]
           then q0\<lparr>isInvalidated := True, isFetching := (isFetching q0 \<or> active q0)\<rparr>
           else q0)"
    unfolding in_invalidateQueries [of k q1] by blast
  from assms(2) q0(2) q1(2) show ?thesis
    by (cases "partialMatchKey k [JStr (js ''game-logs'')]";
        cases "partialMatchKey k [JStr (js ''logged-games'')]") auto
qed


lemma mutate_failure:
  assumes "fst (useDeleteGameLog_mutationFn u remote X) = Inl e"
  shows "fst (snd (useDeleteGameLog_mutate u remote c X)) =
           useDeleteGameLog_onSettled (useDeleteGameLog_onError u
             (snd (useDeleteGameLog_onMutate u c X)) (Some (fst (useDeleteGameLog_onMutate u c X))))"
  using assms by (auto simp: useDeleteGameLog_mutate_def split: prod.splits sum.splits)

lemma mutate_success:
  assumes "fst (useDeleteGameLog_mutationFn u remote X) = Inr d"
  shows "fst (snd (useDeleteGameLog_mutate u remote c X)) =
           useDeleteGameLog_onSettled (snd (useDeleteGameLog_onMutate u c X))"
  using assms by (auto simp: useDeleteGameLog_mutate_def split: prod.splits sum.splits)

lemma mutate_settled:
  "\<exists>c'. fst (snd (useDeleteGameLog_mutate u remote c X)) = useDeleteGameLog_onSettled c'"
  by (cases "fst (useDeleteGameLog_mutationFn u remote X)")
     (auto simp: mutate_failure mutate_success)

lemma rollback_data:
  "getQueryData (useDeleteGameLog_onError u (snd (useDeleteGameLog_onMutate u c X))
                   (Some (fst (useDeleteGameLog_onMutate u c X)))) k =
     (if k = [JStr (js ''logged-games''), user_id u]
           \<and> getQueryData c [JStr (js ''logged-games''), user_id u] \<noteq> None
      then getQueryData c [JStr (js ''logged-games''), user_id u]
      else if k = [JStr (js ''game-logs''), user_id u]
           \<and> getQueryData c [JStr (js ''game-logs''), user_id u] \<noteq> None
      then getQueryData c [JStr (js ''game-logs''), user_id u]
      else getQueryData (snd (useDeleteGameLog_onMutate u c X)) k)"
  unfolding onError_data onMutate_context by (auto simp: key_names_distinct)

lemma keys_fold_setQueryData:
  assumes "\<And>d. \<exists>e. upd d = Some e"
  shows "fst ` set (fold (\<lambda>query c'. setQueryData c' (fst query) upd) qs c)
           = fst ` set c \<union> fst ` set qs"
proof (induction qs arbitrary: c)
  case Nil
  then show ?case by simp
next
  case (Cons x qs)
  obtain e where "upd (getQueryData c (fst x)) = Some e" using assms by blast
  then have "fst ` set (setQueryData c (fst x) upd) = insert (fst x) (fst ` set c)"
    by (simp add: keys_setQueryData)
  then show ?case by (simp add: Cons.IH)
qed

lemma keys_onMutate:
  "fst ` set (snd (useDeleteGameLog_onMutate u c X))
     = insert [JStr (js ''game-logs''), user_id u] (fst ` set c)"
proof -
  let ?gl = "[JStr (js ''game-logs''), user_id u]"
  let ?c2 = "cancelQueries (cancelQueries c [JStr (js ''game-logs'')]) [JStr (js ''logged-games'')]"
  let ?upd1 = "\<lambda>old. case old of
                 Some logs \<Rightarrow> Some (filter (\<lambda>log. getProp log ''id'' \<noteq> JStr X) logs)
               | None \<Rightarrow> Some []"
  let ?upd2 = "\<lambda>old. case old of
                 Some games \<Rightarrow>
                   Some (filter (\<lambda>game. optional_id (getProp game ''logData'') \<noteq> JStr X) games)
               | None \<Rightarrow> Some []"
  let ?c3 = "setQueryData ?c2 ?gl ?upd1"
  have snd_eq: "snd (useDeleteGameLog_onMutate u c X)
          = fold (\<lambda>query c'. setQueryData c' (fst query) ?upd2)
              (findAll ?c3 [JStr (js ''logged-games'')]) ?c3"
    by (simp add: useDeleteGameLog_onMutate_def Let_def)
  have some: "\<And>d. \<exists>e. ?upd2 d = Some e" by (simp split: option.splits)
  have keys3: "fst ` set ?c3 = insert ?gl (fst ` set c)"
    by (simp add: keys_setQueryData split: option.splits)
  show ?thesis
    unfolding snd_eq keys_fold_setQueryData [of ?upd2, OF some] keys_findAll keys3 by auto
qed

lemma getQueryData_in_keys: "getQueryData c k \<noteq> None \<Longrightarrow> k \<in> fst ` set c"
  by (cases "map_of c k") (auto simp: getQueryData_def dest: map_of_SomeD intro: rev_image_eqI)

lemma keys_rollback:
  "fst ` set (useDeleteGameLog_onError u (snd (useDeleteGameLog_onMutate u c X))
                (Some (fst (useDeleteGameLog_onMutate u c X))))
     = insert [JStr (js ''game-logs''), user_id u] (fst ` set c)"
  using getQueryData_in_keys [of c "[JStr (js ''logged-games''), user_id u]"]
  unfolding useDeleteGameLog_onError_def onMutate_context
  by (auto simp: keys_setQueryData keys_onMutate Let_def split: option.splits)

lemma keys_onSettled [simp]: "fst ` set (useDeleteGameLog_onSettled c) = fst ` set c"
  by (simp add: useDeleteGameLog_onSettled_def)

lemma keys_mutate:
  "fst ` set (fst (snd (useDeleteGameLog_mutate u remote c X)))
     = insert [JStr (js ''game-logs''), user_id u] (fst ` set c)"
  by (cases "fst (useDeleteGameLog_mutationFn u remote X)")
     (simp_all add: mutate_failure mutate_success keys_rollback keys_onMutate)

lemma failed_delete_run:
  "useDeleteGameLog_mutate (Some (User (js ''U''))) (\<lambda>rq. (NoData, Some ''network error''))
     [([JStr (js ''game-logs''), JStr (js ''U'')],
       \<lparr>qdata = Some [[(''id'', JStr (js ''E''))], [(''id'', JStr (js ''F''))]],
        isInvalidated = False, isFetching = False, active = True\<rparr>),
      ([JStr (js ''logged-games''), JStr (js ''U''), JStr (js ''attended'')],
       \<lparr>qdata = Some [[(''logData'', JObj [(''id'', JStr (js ''E''))])],
                      [(''logData'', JObj [(''id'', JStr (js ''F''))])]],
        isInvalidated = False, isFetching = False, active = True\<rparr>),
      ([JStr (js ''logged-games''), JStr (js ''U''), JStr (js ''watched'')],
       \<lparr>qdata = None, isInvalidated = False, isFetching = True, active = True\<rparr>)]
     (js ''E'')
   = (Inl (RemoteError ''network error''),
      [([JStr (js ''game-logs''), JStr (js ''U'')],
        \<lparr>qdata = Some [[(''id'', JStr (js ''E''))], [(''id'', JStr (js ''F''))]],
         isInvalidated = True, isFetching = True, active = True\<rparr>),
       ([JStr (js ''logged-games''), JStr (js ''U''), JStr (js ''attended'')],
        \<lparr>qdata = Some [[(''logData'', JObj [(''id'', JStr (js ''F''))])]],
         isInvalidated = True, isFetching = True, active = True\<rparr>),
       ([JStr (js ''logged-games''), JStr (js ''U''), JStr (js ''watched'')],
        \<lparr>qdata = Some [], isInvalidated = True, isFetching = True, active = True\<rparr>)],
      [Delete ''user_game_logs'' [(''id'', JStr (js ''E'')), (''user_id'', JStr (js ''U''))]])"
  by code_simp

subsection \<open>The optimistic patch\<close>

text \<open>
  Claim C2. \<^verbatim>\<open>onMutate\<close>, which runs before the remote call and does not depend on its
  answer, leaves in the cached entry list exactly the elements whose \<^verbatim>\<open>id\<close> is not the
  deleted id, and in every cached logged-games result, whatever the rest of its key,
  exactly the elements whose \<^verbatim>\<open>logData?.id\<close> is not the deleted id.
\<close>

theorem onMutate_removes_entry:
  "getQueryData (snd (useDeleteGameLog_onMutate u c X)) [JStr (js ''game-logs''), user_id u]
     = Some (case getQueryData c [JStr (js ''game-logs''), user_id u] of
               Some logs \<Rightarrow> filter (\<lambda>log. getProp log ''id'' \<noteq> JStr X) logs
             | None \<Rightarrow> [])
   \<and> (\<forall>k \<in> fst ` set c. partialMatchKey k [JStr (js ''logged-games'')] \<longrightarrow>
         getQueryData (snd (useDeleteGameLog_onMutate u c X)) k
           = Some (case getQueryData c k of
                     Some games \<Rightarrow>
                       filter (\<lambda>game. optional_id (getProp game ''logData'') \<noteq> JStr X) games
                   | None \<Rightarrow> []))"
proof (intro conjI ballI impI)
  show "getQueryData (snd (useDeleteGameLog_onMutate u c X)) [JStr (js ''game-logs''), user_id u]
     = Some (case getQueryData c [JStr (js ''game-logs''), user_id u] of
               Some logs \<Rightarrow> filter (\<lambda>log. getProp log ''id'' \<noteq> JStr X) logs
             | None \<Rightarrow> [])"
    by (simp add: onMutate_data split: option.splits)
next
  fix k
  assume k: "k \<in> fst ` set c" "partialMatchKey k [JStr (js ''logged-games'')]"
  then have "k \<noteq> [JStr (js ''game-logs''), user_id u]" by auto
  with k show "getQueryData (snd (useDeleteGameLog_onMutate u c X)) k
           = Some (case getQueryData c k of
                     Some games \<Rightarrow>
                       filter (\<lambda>game. optional_id (getProp game ''logData'') \<noteq> JStr X) games
                   | None \<Rightarrow> [])"
    by (simp add: onMutate_data split: option.splits)
qed

theorem onMutate_removes_entry_witness:
  "getQueryData (snd (useDeleteGameLog_onMutate (Some (User (js ''U'')))
      [([JStr (js ''game-logs''), JStr (js ''U'')],
        \<lparr>qdata = Some [[(''id'', JStr (js ''E''))], [(''id'', JStr (js ''F''))]],
         isInvalidated = False, isFetching = False, active = True\<rparr>),
       ([JStr (js ''logged-games''), JStr (js ''U''), JStr (js ''attended'')],
        \<lparr>qdata = Some [[(''logData'', JObj [(''id'', JStr (js ''E''))])],
                       [(''logData'', JObj [(''id'', JStr (js ''F''))])]],
         isInvalidated = False, isFetching = False, active = True\<rparr>)]
      (js ''E''))) [JStr (js ''game-logs''), JStr (js ''U'')]
     = Some [[(''id'', JStr (js ''F''))]]
   \<and> getQueryData (snd (useDeleteGameLog_onMutate (Some (User (js ''U'')))
      [([JStr (js ''game-logs''), JStr (js ''U'')],
        \<lparr>qdata = Some [[(''id'', JStr (js ''E''))], [(''id'', JStr (js ''F''))]],
         isInvalidated = False, isFetching = False, active = True\<rparr>),
       ([JStr (js ''logged-games''), JStr (js ''U''), JStr (js ''attended'')],
        \<lparr>qdata = Some [[(''logData'', JObj [(''id'', JStr (js ''E''))])],
                       [(''logData'', JObj [(''id'', JStr (js ''F''))])]],
         isInvalidated = False, isFetching = False, active = True\<rparr>)]
      (js ''E''))) [JStr (js ''logged-games''), JStr (js ''U''), JStr (js ''attended'')]
     = Some [[(''logData'', JObj [(''id'', JStr (js ''F''))])]]"
  using onMutate_removes_entry [of "Some (User (js ''U''))"
      "[([JStr (js ''game-logs''), JStr (js ''U'')],
        \<lparr>qdata = Some [[(''id'', JStr (js ''E''))], [(''id'', JStr (js ''F''))]],
         isInvalidated = False, isFetching = False, active = True\<rparr>),
       ([JStr (js ''logged-games''), JStr (js ''U''), JStr (js ''attended'')],
        \<lparr>qdata = Some [[(''logData'', JObj [(''id'', JStr (js ''E''))])],
                       [(''logData'', JObj [(''id'', JStr (js ''F''))])]],
         isInvalidated = False, isFetching = False, active = True\<rparr>)]" "js ''E''"]
  by (simp add: getQueryData_def user_id_def partialMatchKey_def getProp_def js_def)

subsection \<open>Settling\<close>

text \<open>
  Claim C3. After every run of the delete mutation, whether the remote delete succeeded
  or failed, every cached query whose key starts with \<^verbatim>\<open>game-logs\<close> or with
  \<^verbatim>\<open>logged-games\<close> is marked invalidated, and is being refetched if it is in use.
  The cache then holds the queries it held before, and the entry list of the session.
\<close>

theorem delete_always_invalidates:
  "(\<forall>(k, q) \<in> set (fst (snd (useDeleteGameLog_mutate u remote c X))).
      partialMatchKey k [JStr (js ''game-logs'')]
        \<or> partialMatchKey k [JStr (js ''logged-games'')] \<longrightarrow>
      isInvalidated q \<and> (active q \<longrightarrow> isFetching q))
   \<and> fst ` set (fst (snd (useDeleteGameLog_mutate u remote c X)))
       = insert [JStr (js ''game-logs''), user_id u] (fst ` set c)"
proof -
  obtain c0 where "fst (snd (useDeleteGameLog_mutate u remote c X))
                     = useDeleteGameLog_onSettled c0"
    using mutate_settled by blast
  then have "\<forall>(k, q) \<in> set (fst (snd (useDeleteGameLog_mutate u remote c X))).
      partialMatchKey k [JStr (js ''game-logs'')]
        \<or> partialMatchKey k [JStr (js ''logged-games'')] \<longrightarrow>
      isInvalidated q \<and> (active q \<longrightarrow> isFetching q)"
    using onSettled_marks by auto
  then show ?thesis by (simp only: keys_mutate simp_thms)
qed

theorem delete_always_invalidates_witness:
  "([JStr (js ''logged-games''), JStr (js ''U''), JStr (js ''attended'')],
    \<lparr>qdata = Some [[(''logData'', JObj [(''id'', JStr (js ''F''))])]],
     isInvalidated = True, isFetching = True, active = True\<rparr>)
     \<in> set (fst (snd (useDeleteGameLog_mutate (Some (User (js ''U'')))
         (\<lambda>rq. (NoData, Some ''network error''))
         [([JStr (js ''game-logs''), JStr (js ''U'')],
           \<lparr>qdata = Some [[(''id'', JStr (js ''E''))], [(''id'', JStr (js ''F''))]],
            isInvalidated = False, isFetching = False, active = True\<rparr>),
          ([JStr (js ''logged-games''), JStr (js ''U''), JStr (js ''attended'')],
           \<lparr>qdata = Some [[(''logData'', JObj [(''id'', JStr (js ''E''))])],
                          [(''logData'', JObj [(''id'', JStr (js ''F''))])]],
            isInvalidated = False, isFetching = False, active = True\<rparr>),
          ([JStr (js ''logged-games''), JStr (js ''U''), JStr (js ''watched'')],
           \<lparr>qdata = None, isInvalidated = False, isFetching = True, active = True\<rparr>)]
         (js ''E''))))
   \<and> partialMatchKey [JStr (js ''logged-games''), JStr (js ''U''), JStr (js ''attended'')]
         [JStr (js ''logged-games'')]
   \<and> isInvalidated \<lparr>qdata = Some [[(''logData'', JObj [(''id'', JStr (js ''F''))])]],
         isInvalidated = True, isFetching = True, active = True\<rparr>
   \<and> isFetching \<lparr>qdata = Some [[(''logData'', JObj [(''id'', JStr (js ''F''))])]],
         isInvalidated = True, isFetching = True, active = True\<rparr>"
  using delete_always_invalidates [of "Some (User (js ''U''))" "\<lambda>rq. (NoData, Some ''network error'')"
         "[([JStr (js ''game-logs''), JStr (js ''U'')],
           \<lparr>qdata = Some [[(''id'', JStr (js ''E''))], [(''id'', JStr (js ''F''))]],
            isInvalidated = False, isFetching = False, active = True\<rparr>),
          ([JStr (js ''logged-games''), JStr (js ''U''), JStr (js ''attended'')],
           \<lparr>qdata = Some [[(''logData'', JObj [(''id'', JStr (js ''E''))])],
                          [(''logData'', JObj [(''id'', JStr (js ''F''))])]],
            isInvalidated = False, isFetching = False, active = True\<rparr>),
          ([JStr (js ''logged-games''), JStr (js ''U''), JStr (js ''watched'')],
           \<lparr>qdata = None, isInvalidated = False, isFetching = True, active = True\<rparr>)]"
         "js ''E''"]
  unfolding failed_delete_run by (simp add: partialMatchKey_def)

subsection \<open>Slots without data\<close>

text \<open>
  Claim C10. If the entry-list slot, or a logged-games slot of the cache, holds no data
  when the delete starts, \<^verbatim>\<open>onMutate\<close> installs the empty list there; the snapshot of
  such a slot is \<^verbatim>\<open>undefined\<close>, so \<^verbatim>\<open>onError\<close> does not restore it, and the empty list
  is still there when the mutation has settled.
\<close>

theorem delete_installs_empty_list:
  assumes "k = [JStr (js ''game-logs''), user_id u]
           \<or> (k \<in> fst ` set c \<and> partialMatchKey k [JStr (js ''logged-games'')])"
    and "getQueryData c k = None"
  shows "getQueryData (snd (useDeleteGameLog_onMutate u c X)) k = Some []
         \<and> (k = [JStr (js ''game-logs''), user_id u] \<longrightarrow>
              previousGameLogs (fst (useDeleteGameLog_onMutate u c X)) = None)
         \<and> (k = [JStr (js ''logged-games''), user_id u] \<longrightarrow>
              previousLoggedGames (fst (useDeleteGameLog_onMutate u c X)) = None)
         \<and> getQueryData (useDeleteGameLog_onError u (snd (useDeleteGameLog_onMutate u c X))
              (Some (fst (useDeleteGameLog_onMutate u c X)))) k = Some []
         \<and> getQueryData (fst (snd (useDeleteGameLog_mutate u remote c X))) k = Some []"
proof -
  have patched: "getQueryData (snd (useDeleteGameLog_onMutate u c X)) k = Some []"
    using assms by (auto simp: onMutate_data)
  have rolled: "getQueryData (useDeleteGameLog_onError u (snd (useDeleteGameLog_onMutate u c X))
              (Some (fst (useDeleteGameLog_onMutate u c X)))) k = Some []"
    using assms(2) patched by (auto simp: rollback_data)
  have final: "getQueryData (fst (snd (useDeleteGameLog_mutate u remote c X))) k = Some []"
    by (cases "fst (useDeleteGameLog_mutationFn u remote X)")
       (simp_all add: mutate_failure mutate_success patched rolled)
  have snap: "(k = [JStr (js ''game-logs''), user_id u] \<longrightarrow>
              previousGameLogs (fst (useDeleteGameLog_onMutate u c X)) = None)
         \<and> (k = [JStr (js ''logged-games''), user_id u] \<longrightarrow>
              previousLoggedGames (fst (useDeleteGameLog_onMutate u c X)) = None)"
    unfolding onMutate_context using assms(2) by auto
  from patched snap rolled final show ?thesis by blast
qed

theorem delete_installs_empty_list_witness:
  "[JStr (js ''logged-games''), JStr (js ''U''), JStr (js ''watched'')]
     \<in> fst ` set
         [([JStr (js ''game-logs''), JStr (js ''U'')],
           \<lparr>qdata = Some [[(''id'', JStr (js ''E''))], [(''id'', JStr (js ''F''))]],
            isInvalidated = False, isFetching = False, active = True\<rparr>),
          ([JStr (js ''logged-games''), JStr (js ''U''), JStr (js ''attended'')],
           \<lparr>qdata = Some [[(''logData'', JObj [(''id'', JStr (js ''E''))])],
                          [(''logData'', JObj [(''id'', JStr (js ''F''))])]],
            isInvalidated = False, isFetching = False, active = True\<rparr>),
          ([JStr (js ''logged-games''), JStr (js ''U''), JStr (js ''watched'')],
           \<lparr>qdata = None, isInvalidated = False, isFetching = True, active = True\<rparr>)]
   \<and> partialMatchKey [JStr (js ''logged-games''), JStr (js ''U''), JStr (js ''watched'')]
         [JStr (js ''logged-games'')]
   \<and> getQueryData
         [([JStr (js ''game-logs''), JStr (js ''U'')],
           \<lparr>qdata = Some [[(''id'', JStr (js ''E''))], [(''id'', JStr (js ''F''))]],
            isInvalidated = False, isFetching = False, active = True\<rparr>),
          ([JStr (js ''logged-games''), JStr (js ''U''), JStr (js ''attended'')],
           \<lparr>qdata = Some [[(''logData'', JObj [(''id'', JStr (js ''E''))])],
                          [(''logData'', JObj [(''id'', JStr (js ''F''))])]],
            isInvalidated = False, isFetching = False, active = True\<rparr>),
          ([JStr (js ''logged-games''), JStr (js ''U''), JStr (js ''watched'')],
           \<lparr>qdata = None, isInvalidated = False, isFetching = True, active = True\<rparr>)]
         [JStr (js ''logged-games''), JStr (js ''U''), JStr (js ''watched'')] = None
   \<and> getQueryData (fst (snd (useDeleteGameLog_mutate (Some (User (js ''U'')))
         (\<lambda>rq. (NoData, Some ''network error''))
         [([JStr (js ''game-logs''), JStr (js ''U'')],
           \<lparr>qdata = Some [[(''id'', JStr (js ''E''))], [(''id'', JStr (js ''F''))]],
            isInvalidated = False, isFetching = False, active = True\<rparr>),
          ([JStr (js ''logged-games''), JStr (js ''U''), JStr (js ''attended'')],
           \<lparr>qdata = Some [[(''logData'', JObj [(''id'', JStr (js ''E''))])],
                          [(''logData'', JObj [(''id'', JStr (js ''F''))])]],
            isInvalidated = False, isFetching = False, active = True\<rparr>),
          ([JStr (js ''logged-games''), JStr (js ''U''), JStr (js ''watched'')],
           \<lparr>qdata = None, isInvalidated = False, isFetching = True, active = True\<rparr>)]
         (js ''E''))))
       [JStr (js ''logged-games''), JStr (js ''U''), JStr (js ''watched'')] = Some []"
proof -
  let ?c = "[([JStr (js ''game-logs''), JStr (js ''U'')],
           \<lparr>qdata = Some [[(''id'', JStr (js ''E''))], [(''id'', JStr (js ''F''))]],
            isInvalidated = False, isFetching = False, active = True\<rparr>),
          ([JStr (js ''logged-games''), JStr (js ''U''), JStr (js ''attended'')],
           \<lparr>qdata = Some [[(''logData'', JObj [(''id'', JStr (js ''E''))])],
                          [(''logData'', JObj [(''id'', JStr (js ''F''))])]],
            isInvalidated = False, isFetching = False, active = True\<rparr>),
          ([JStr (js ''logged-games''), JStr (js ''U''), JStr (js ''watched'')],
           \<lparr>qdata = None, isInvalidated = False, isFetching = True, active = True\<rparr>)]"
  let ?k = "[JStr (js ''logged-games''), JStr (js ''U''), JStr (js ''watched'')]"
  have 1: "?k \<in> fst ` set ?c" by simp
  have 2: "partialMatchKey ?k [JStr (js ''logged-games'')]" by (simp add: partialMatchKey_def)
  have 3: "getQueryData ?c ?k = None" by (simp add: getQueryData_def js_def)
  from 1 2 have 4: "?k = [JStr (js ''game-logs''), user_id (Some (User (js ''U'')))]
           \<or> (?k \<in> fst ` set ?c \<and> partialMatchKey ?k [JStr (js ''logged-games'')])"
    by blast
  from 1 2 3 delete_installs_empty_list [OF 4 3, of "js ''E''" "\<lambda>rq. (NoData, Some ''network error'')"]
  show ?thesis by blast
qed

subsection \<open>Rollback\<close>

text \<open>
  After a failed remote delete, \<^verbatim>\<open>onError\<close> puts back the two snapshots it has, where
  they hold data: the entry list, and the logged-games result stored under exactly the
  key \<^verbatim>\<open>[logged-games, user id]\<close>.
\<close>

lemma rollback_restores_snapshots:
  "(getQueryData c [JStr (js ''game-logs''), user_id u] \<noteq> None \<longrightarrow>
      getQueryData (useDeleteGameLog_onError u (snd (useDeleteGameLog_onMutate u c X))
        (Some (fst (useDeleteGameLog_onMutate u c X)))) [JStr (js ''game-logs''), user_id u]
        = getQueryData c [JStr (js ''game-logs''), user_id u])
   \<and> (getQueryData c [JStr (js ''logged-games''), user_id u] \<noteq> None \<longrightarrow>
      getQueryData (useDeleteGameLog_onError u (snd (useDeleteGameLog_onMutate u c X))
        (Some (fst (useDeleteGameLog_onMutate u c X)))) [JStr (js ''logged-games''), user_id u]
        = getQueryData c [JStr (js ''logged-games''), user_id u])"
  by (simp add: rollback_data key_names_distinct)

text \<open>
  Claim C1 says that a failed remote delete restores the entry list and every
  logged-games cache entry, whatever its filter parameters. The code takes the
  logged-games snapshot under the key without filter parameters only, while the patch
  reaches every logged-games entry. Here user \<open>U\<close> deletes entry \<open>E\<close> with the entry list
  \<open>[E, F]\<close> cached and, under a key with a filter parameter, the logged games of \<open>E\<close> and
  \<open>F\<close>; the remote delete fails. The logged-games entry still lacks the game of \<open>E\<close>
  afterwards, while the entry list is \<open>[E, F]\<close> again.
\<close>

theorem delete_rollback_skips_filtered_logged_games:
  "getQueryData
     [([JStr (js ''game-logs''), JStr (js ''U'')],
       \<lparr>qdata = Some [[(''id'', JStr (js ''E''))], [(''id'', JStr (js ''F''))]],
        isInvalidated = False, isFetching = False, active = True\<rparr>),
      ([JStr (js ''logged-games''), JStr (js ''U''), JStr (js ''attended'')],
       \<lparr>qdata = Some [[(''logData'', JObj [(''id'', JStr (js ''E''))])],
                      [(''logData'', JObj [(''id'', JStr (js ''F''))])]],
        isInvalidated = False, isFetching = False, active = True\<rparr>),
      ([JStr (js ''logged-games''), JStr (js ''U''), JStr (js ''watched'')],
       \<lparr>qdata = None, isInvalidated = False, isFetching = True, active = True\<rparr>)]
     [JStr (js ''logged-games''), JStr (js ''U''), JStr (js ''attended'')]
     = Some [[(''logData'', JObj [(''id'', JStr (js ''E''))])],
             [(''logData'', JObj [(''id'', JStr (js ''F''))])]]
   \<and> fst (useDeleteGameLog_mutate (Some (User (js ''U'')))
         (\<lambda>rq. (NoData, Some ''network error''))
         [([JStr (js ''game-logs''), JStr (js ''U'')],
           \<lparr>qdata = Some [[(''id'', JStr (js ''E''))], [(''id'', JStr (js ''F''))]],
            isInvalidated = False, isFetching = False, active = True\<rparr>),
          ([JStr (js ''logged-games''), JStr (js ''U''), JStr (js ''attended'')],
           \<lparr>qdata = Some [[(''logData'', JObj [(''id'', JStr (js ''E''))])],
                          [(''logData'', JObj [(''id'', JStr (js ''F''))])]],
            isInvalidated = False, isFetching = False, active = True\<rparr>),
          ([JStr (js ''logged-games''), JStr (js ''U''), JStr (js ''watched'')],
           \<lparr>qdata = None, isInvalidated = False, isFetching = True, active = True\<rparr>)]
         (js ''E'')) = Inl (RemoteError ''network error'')
   \<and> getQueryData (fst (snd (useDeleteGameLog_mutate (Some (User (js ''U'')))
         (\<lambda>rq. (NoData, Some ''network error''))
         [([JStr (js ''game-logs''), JStr (js ''U'')],
           \<lparr>qdata = Some [[(''id'', JStr (js ''E''))], [(''id'', JStr (js ''F''))]],
            isInvalidated = False, isFetching = False, active = True\<rparr>),
          ([JStr (js ''logged-games''), JStr (js ''U''), JStr (js ''attended'')],
           \<lparr>qdata = Some [[(''logData'', JObj [(''id'', JStr (js ''E''))])],
                          [(''logData'', JObj [(''id'', JStr (js ''F''))])]],
            isInvalidated = False, isFetching = False, active = True\<rparr>),
          ([JStr (js ''logged-games''), JStr (js ''U''), JStr (js ''watched'')],
           \<lparr>qdata = None, isInvalidated = False, isFetching = True, active = True\<rparr>)]
         (js ''E''))))
       [JStr (js ''logged-games''), JStr (js ''U''), JStr (js ''attended'')]
     = Some [[(''logData'', JObj [(''id'', JStr (js ''F''))])]]
   \<and> getQueryData (fst (snd (useDeleteGameLog_mutate (Some (User (js ''U'')))
         (\<lambda>rq. (NoData, Some ''network error''))
         [([JStr (js ''game-logs''), JStr (js ''U'')],
           \<lparr>qdata = Some [[(''id'', JStr (js ''E''))], [(''id'', JStr (js ''F''))]],
            isInvalidated = False, isFetching = False, active = True\<rparr>),
          ([JStr (js ''logged-games''), JStr (js ''U''), JStr (js ''attended'')],
           \<lparr>qdata = Some [[(''logData'', JObj [(''id'', JStr (js ''E''))])],
                          [(''logData'', JObj [(''id'', JStr (js ''F''))])]],
            isInvalidated = False, isFetching = False, active = True\<rparr>),
          ([JStr (js ''logged-games''), JStr (js ''U''), JStr (js ''watched'')],
           \<lparr>qdata = None, isInvalidated = False, isFetching = True, active = True\<rparr>)]
         (js ''E''))))
       [JStr (js ''game-logs''), JStr (js ''U'')]
     = Some [[(''id'', JStr (js ''E''))], [(''id'', JStr (js ''F''))]]"
  unfolding failed_delete_run by (simp add: getQueryData_def js_def)

end
